theory Spec2Isabelle
  imports Main "HOL-Library.Word" "HOL-Library.Sublist"
begin

section \<open>Types (Type.h)\<close>

text \<open>
  \<^verbatim>\<open>BuiltinType::TypeSpec\<close> and the type classes of \<^verbatim>\<open>Type::TypeClass\<close>.
  A \<^verbatim>\<open>QualType\<close> is modelled by the canonical type it points to: every type
  predicate of Type.h works on the canonical type and ignores the qualifiers.
\<close>

datatype TypeSpec = Invalid | Integer | Real | DoublePrecision | Complex | Character | Logical

datatype Type =
    BuiltinType TypeSpec
  | ArrayType Type
  | RecordType
  | PointerType Type nat

definition isIntegerType :: "Type \<Rightarrow> bool" where
  "isIntegerType T = (case T of BuiltinType TS \<Rightarrow> TS = Integer | _ \<Rightarrow> False)"

definition isRealType :: "Type \<Rightarrow> bool" where
  "isRealType T = (case T of BuiltinType TS \<Rightarrow> TS = Real | _ \<Rightarrow> False)"

definition isCharacterType :: "Type \<Rightarrow> bool" where
  "isCharacterType T = (case T of BuiltinType TS \<Rightarrow> TS = Character | _ \<Rightarrow> False)"

definition isDoublePrecisionType :: "Type \<Rightarrow> bool" where
  "isDoublePrecisionType T = (case T of BuiltinType TS \<Rightarrow> TS = DoublePrecision | _ \<Rightarrow> False)"

definition isLogicalType :: "Type \<Rightarrow> bool" where
  "isLogicalType T = (case T of BuiltinType TS \<Rightarrow> TS = Logical | _ \<Rightarrow> False)"

definition isComplexType :: "Type \<Rightarrow> bool" where
  "isComplexType T = (case T of BuiltinType TS \<Rightarrow> TS = Complex | _ \<Rightarrow> False)"

section \<open>Expressions and declarations\<close>

text \<open>
  Source locations are opaque numbers. Every expression carries its location and its
  type. The value of an integer constant is an \<^verbatim>\<open>APInt\<close> of any width, read as
  the natural number it holds. A \<^verbatim>\<open>VarDecl\<close> holds its declaration context, its
  location, its identifier, its type (a null \<^verbatim>\<open>QualType\<close> is \<open>None\<close>), the kind
  of variable and the initializer.
\<close>

type_synonym SMLoc = nat

definition NoLoc :: SMLoc where
  "NoLoc = 0"

datatype ConversionKind = Conv_INT | Conv_REAL | Conv_DBLE | Conv_CMPLX

datatype UnaryOperator = UO_Plus | UO_Minus | UO_Not

datatype BinaryOperator =
  BO_Plus | BO_Minus | BO_Multiply | BO_Divide | BO_Power | BO_Concat | BO_Relational

datatype VarKind = LocalVariable | FunctionArgument | ParameterVariable

datatype Expr =
    IntegerConstantExpr SMLoc Type nat
  | ConstantExpr SMLoc Type
  | VarExpr SMLoc Type VarDecl
  | UnaryExpr SMLoc Type UnaryOperator Expr
  | BinaryExpr SMLoc Type BinaryOperator Expr Expr
  | ConversionExpr SMLoc Type ConversionKind Expr
  | OtherExpr SMLoc Type
and VarDecl =
    VarDecl (getDeclContext: nat) (getDeclLocation: SMLoc) (getIdentifier: string)
      (getDeclType: "Type option") (VariableKind: VarKind) (getInit: "Expr option")

fun getLocation :: "Expr \<Rightarrow> SMLoc" where
  "getLocation (IntegerConstantExpr L T v) = L"
| "getLocation (ConstantExpr L T) = L"
| "getLocation (VarExpr L T D) = L"
| "getLocation (UnaryExpr L T Op E) = L"
| "getLocation (BinaryExpr L T Op A B) = L"
| "getLocation (ConversionExpr L T K E) = L"
| "getLocation (OtherExpr L T) = L"

fun getType :: "Expr \<Rightarrow> Type" where
  "getType (IntegerConstantExpr L T v) = T"
| "getType (ConstantExpr L T) = T"
| "getType (VarExpr L T D) = T"
| "getType (UnaryExpr L T Op E) = T"
| "getType (BinaryExpr L T Op A B) = T"
| "getType (ConversionExpr L T K E) = T"
| "getType (OtherExpr L T) = T"

text \<open>
  \<^verbatim>\<open>ConversionExpr::Create(Context, Loc, Kind, E)\<close>: the node has the type its
  intrinsic converts to.
\<close>

fun ConversionType :: "ConversionKind \<Rightarrow> Type" where
  "ConversionType Conv_INT = BuiltinType Integer"
| "ConversionType Conv_REAL = BuiltinType Real"
| "ConversionType Conv_DBLE = BuiltinType DoublePrecision"
| "ConversionType Conv_CMPLX = BuiltinType Complex"

definition ConversionExpr_Create :: "SMLoc \<Rightarrow> ConversionKind \<Rightarrow> Expr \<Rightarrow> Expr" where
  "ConversionExpr_Create L K E = ConversionExpr L (ConversionType K) K E"

section \<open>Statements, diagnostics and the state of Sema\<close>

text \<open>
  The statement kinds \<^verbatim>\<open>Stmt::StmtTy\<close> that Sema.cpp creates or tests. Statements
  live in the arena of the \<^verbatim>\<open>ASTContext\<close>: a statement pointer is an index into
  the list \<open>Stmts\<close>, and creating a statement appends it. The links that Sema patches
  after a statement is created (then and else branch, the terminating statement of a
  DO, the destinations of GOTO, ASSIGN and assigned GOTO) are optional indices. An
  IMPLICIT statement with letter specifications holds its type and the specifications;
  IMPLICIT NONE holds none.
\<close>

datatype StmtTy =
    Stmt_Program | Stmt_EndProgram | Stmt_Use | Stmt_Import | Stmt_Implicit
  | Stmt_Parameter | Stmt_Asynchronous | Stmt_Dimension | Stmt_External | Stmt_Intrinsic
  | Stmt_Assignment | Stmt_Block | Stmt_Assign | Stmt_AssignedGoto | Stmt_Goto
  | Stmt_If | Stmt_Else | Stmt_EndIf | Stmt_Do | Stmt_Continue | Stmt_Stop | Stmt_Print

record Stmt =
  getStatementID :: StmtTy
  getStmtLocation :: SMLoc
  getStmtLabel :: "Expr option"
  getOperands :: "Expr list"
  getThenStmt :: "nat option"
  getElseStmt :: "nat option"
  getTerminatingStmt :: "nat option"
  getDestination :: "nat option"
  getAddress :: "nat option"
  getAllowedValues :: "nat option list"
  getLetterSpecs :: "(Type option \<times> (string \<times> string option) list) option"

definition Stmt_Create :: "StmtTy \<Rightarrow> SMLoc \<Rightarrow> Expr option \<Rightarrow> Expr list \<Rightarrow> Stmt" where
  "Stmt_Create ID L Label Ops =
     \<lparr> getStatementID = ID, getStmtLocation = L, getStmtLabel = Label, getOperands = Ops,
       getThenStmt = None, getElseStmt = None, getTerminatingStmt = None,
       getDestination = None, getAddress = None, getAllowedValues = [],
       getLetterSpecs = None \<rparr>"

text \<open>
  A diagnostic is its identifier with its location and its arguments. A type argument
  stands for the string \<^verbatim>\<open>QualType::print\<close> writes for that type, an expression
  argument for the string \<^verbatim>\<open>Expr::print\<close> writes.
\<close>

datatype Diagnostic =
    err_typecheck_assign_incompatible SMLoc Type Type
  | err_redefinition_of_stmt_label SMLoc Expr
  | err_undeclared_stmt_label_use SMLoc Expr
  | err_expected_kw SMLoc string
  | err_stmt_not_in_if SMLoc string
  | err_invalid_do_terminating_stmt SMLoc
  | err_typecheck_expected_logical_expr SMLoc Type
  | err_typecheck_expected_do_var SMLoc Type
  | err_typecheck_expected_do_expr SMLoc Type
  | err_stmt_label_must_decl_after SMLoc Expr string
  | ReportError SMLoc string
  | ReportNote SMLoc string

datatype ResolveCallbackTy =
    ResolveAssignStmtLabel
  | ResolveAssignedGotoStmtLabel
  | ResolveGotoStmtLabel
  | ResolveDoStmtLabel

record StmtLabelForwardDecl =
  StmtLabel :: Expr
  Statement :: nat
  ResolveCallback :: ResolveCallbackTy
  ResolveCallbackData :: nat

record Sema =
  Diags :: "Diagnostic list"
  Stmts :: "Stmt list"
  StmtLabelDeclsInScope :: "nat \<rightharpoonup> nat"
  ForwardStmtLabelDeclsInScope :: "StmtLabelForwardDecl list"
  IfStmtStack :: "nat list"
  DoStmtList :: "nat list"
  CurContext :: nat
  DeclsInContext :: "VarDecl list"
  FETokenInfo :: "string \<rightharpoonup> VarDecl"

definition Report :: "Diagnostic \<Rightarrow> Sema \<Rightarrow> Sema" where
  "Report D S = S\<lparr>Diags := Diags S @ [D]\<rparr>"

definition Create :: "Stmt \<Rightarrow> Sema \<Rightarrow> nat \<times> Sema" where
  "Create s S = (length (Stmts S), S\<lparr>Stmts := Stmts S @ [s]\<rparr>)"

text \<open>The state a fresh \<^verbatim>\<open>Sema\<close> starts a program unit in.\<close>

definition Sema_init :: Sema where
  "Sema_init =
     \<lparr> Diags = [], Stmts = [], StmtLabelDeclsInScope = Map.empty,
       ForwardStmtLabelDeclsInScope = [], IfStmtStack = [], DoStmtList = [],
       CurContext = 0, DeclsInContext = [], FETokenInfo = Map.empty \<rparr>"

section \<open>The statement label scope (Scope.cpp)\<close>

text \<open>
  \<^verbatim>\<open>GetStmtLabelValue\<close>: the value of the label, limited to the largest
  \<^verbatim>\<open>StmtLabelInteger\<close>. The typedef is declared in Scope.h; it is taken as a
  64-bit unsigned integer. A label that is not an integer constant is unreachable in the
  source and gets the key 0 of the dead return.
\<close>

definition StmtLabelInteger_max :: nat where
  "StmtLabelInteger_max = 2 ^ 64 - 1"

fun GetStmtLabelValue :: "Expr \<Rightarrow> nat" where
  "GetStmtLabelValue (IntegerConstantExpr L T v) = min v StmtLabelInteger_max"
| "GetStmtLabelValue E = 0"

definition StmtLabelScope_Declare :: "Expr \<Rightarrow> nat \<Rightarrow> Sema \<Rightarrow> Sema" where
  "StmtLabelScope_Declare Label Statement' S =
     (let Key = GetStmtLabelValue Label in
      case StmtLabelDeclsInScope S Key of
        Some old \<Rightarrow> S
      | None \<Rightarrow> S\<lparr>StmtLabelDeclsInScope := (StmtLabelDeclsInScope S)(Key \<mapsto> Statement')\<rparr>)"

definition StmtLabelScope_Resolve :: "Sema \<Rightarrow> Expr \<Rightarrow> nat option" where
  "StmtLabelScope_Resolve S Label = StmtLabelDeclsInScope S (GetStmtLabelValue Label)"

definition DeclareForwardReference :: "StmtLabelForwardDecl \<Rightarrow> Sema \<Rightarrow> Sema" where
  "DeclareForwardReference Reference S =
     S\<lparr>ForwardStmtLabelDeclsInScope := ForwardStmtLabelDeclsInScope S @ [Reference]\<rparr>"

definition StmtLabelScope_reset :: "Sema \<Rightarrow> Sema" where
  "StmtLabelScope_reset S = S\<lparr>StmtLabelDeclsInScope := Map.empty, ForwardStmtLabelDeclsInScope := []\<rparr>"

section \<open>Sema.cpp: statement labels\<close>

definition DeclareStatementLabel :: "Expr \<Rightarrow> nat \<Rightarrow> Sema \<Rightarrow> Sema" where
  "DeclareStatementLabel Label S' S =
     (case StmtLabelScope_Resolve S Label of
        Some Decl \<Rightarrow> Report (err_redefinition_of_stmt_label (getLocation Label) Label) S
      | None \<Rightarrow> StmtLabelScope_Declare Label S' S)"

definition DeclareIfLabelled :: "Expr option \<Rightarrow> nat \<Rightarrow> Sema \<Rightarrow> Sema" where
  "DeclareIfLabelled Label Result S =
     (case Label of Some L \<Rightarrow> DeclareStatementLabel L Result S | None \<Rightarrow> S)"

section \<open>Sema.cpp: assignment\<close>

text \<open>
  The common tail of \<^verbatim>\<open>ActOnAssignmentStmt\<close>: the assignment statement is created
  from the left side and the (possibly converted) right side, and its label, if any, is
  declared. \<^verbatim>\<open>AssignmentStmt::Create\<close> takes no location. \<open>typeError\<close> is the
  code at the label of that name.
\<close>

definition BuildAssignment :: "Expr \<Rightarrow> Expr \<Rightarrow> Expr option \<Rightarrow> Sema \<Rightarrow> nat option \<times> Sema" where
  "BuildAssignment LHS RHS Label S =
     (let (Result, S1) = Create (Stmt_Create Stmt_Assignment NoLoc Label [LHS, RHS]) S
      in (Some Result, DeclareIfLabelled Label Result S1))"

definition typeError :: "SMLoc \<Rightarrow> Expr \<Rightarrow> Expr \<Rightarrow> Sema \<Rightarrow> nat option \<times> Sema" where
  "typeError Loc LHS RHS S =
     (None, Report (err_typecheck_assign_incompatible Loc (getType LHS) (getType RHS)) S)"

definition ActOnAssignmentStmt ::
  "SMLoc \<Rightarrow> Expr \<Rightarrow> Expr \<Rightarrow> Expr option \<Rightarrow> Sema \<Rightarrow> nat option \<times> Sema" where
  "ActOnAssignmentStmt Loc LHS RHS Label S =
     (let LHSType = getType LHS;
          RHSType = getType RHS;
          IsRHSInteger = isIntegerType RHSType;
          IsRHSReal = isRealType RHSType;
          IsRHSDblPrec = isDoublePrecisionType RHSType;
          IsRHSComplex = isComplexType RHSType;
          IsRHSArithmetic = (IsRHSInteger \<or> IsRHSReal \<or> IsRHSDblPrec \<or> IsRHSComplex)
      in
      if isIntegerType LHSType then
        (if IsRHSInteger then BuildAssignment LHS RHS Label S
         else if IsRHSArithmetic then
           BuildAssignment LHS (ConversionExpr_Create (getLocation RHS) Conv_INT RHS) Label S
         else typeError Loc LHS RHS S)
      else if isRealType LHSType then
        (if IsRHSReal then BuildAssignment LHS RHS Label S
         else if IsRHSArithmetic then
           BuildAssignment LHS (ConversionExpr_Create (getLocation RHS) Conv_REAL RHS) Label S
         else typeError Loc LHS RHS S)
      else if isDoublePrecisionType LHSType then
        (if IsRHSDblPrec then BuildAssignment LHS RHS Label S
         else if IsRHSArithmetic then
           BuildAssignment LHS (ConversionExpr_Create (getLocation RHS) Conv_DBLE RHS) Label S
         else typeError Loc LHS RHS S)
      else if isComplexType LHSType then
        (if IsRHSComplex then BuildAssignment LHS RHS Label S
         else if IsRHSArithmetic then
           BuildAssignment LHS (ConversionExpr_Create (getLocation RHS) Conv_CMPLX RHS) Label S
         else typeError Loc LHS RHS S)
      else if isLogicalType LHSType then
        (if \<not> isLogicalType RHSType then typeError Loc LHS RHS S
         else BuildAssignment LHS RHS Label S)
      else if isCharacterType LHSType then
        (if \<not> isCharacterType RHSType then typeError Loc LHS RHS S
         else BuildAssignment LHS RHS Label S)
      else typeError Loc LHS RHS S)"

section \<open>Sema.cpp: label references\<close>

text \<open>
  The resolve callbacks patch the statement that made the forward reference. Each asserts
  the class of that statement first; the assertions are not part of a release build and
  every forward reference is recorded by the action that created its statement.
\<close>

definition setAddress :: "nat \<Rightarrow> nat option \<Rightarrow> Sema \<Rightarrow> Sema" where
  "setAddress i d S = S\<lparr>Stmts := (Stmts S)[i := (Stmts S ! i)\<lparr>getAddress := d\<rparr>]\<rparr>"

definition setAllowedValue :: "nat \<Rightarrow> nat \<Rightarrow> nat option \<Rightarrow> Sema \<Rightarrow> Sema" where
  "setAllowedValue i k d S =
     S\<lparr>Stmts := (Stmts S)[i := (Stmts S ! i)
        \<lparr>getAllowedValues := (getAllowedValues (Stmts S ! i))[k := d]\<rparr>]\<rparr>"

definition setDestination :: "nat \<Rightarrow> nat option \<Rightarrow> Sema \<Rightarrow> Sema" where
  "setDestination i d S = S\<lparr>Stmts := (Stmts S)[i := (Stmts S ! i)\<lparr>getDestination := d\<rparr>]\<rparr>"

definition setTerminatingStmt :: "nat \<Rightarrow> nat option \<Rightarrow> Sema \<Rightarrow> Sema" where
  "setTerminatingStmt i d S =
     S\<lparr>Stmts := (Stmts S)[i := (Stmts S ! i)\<lparr>getTerminatingStmt := d\<rparr>]\<rparr>"

definition setThenStmt :: "nat \<Rightarrow> nat option \<Rightarrow> Sema \<Rightarrow> Sema" where
  "setThenStmt i d S = S\<lparr>Stmts := (Stmts S)[i := (Stmts S ! i)\<lparr>getThenStmt := d\<rparr>]\<rparr>"

definition setElseStmt :: "nat \<Rightarrow> nat option \<Rightarrow> Sema \<Rightarrow> Sema" where
  "setElseStmt i d S = S\<lparr>Stmts := (Stmts S)[i := (Stmts S ! i)\<lparr>getElseStmt := d\<rparr>]\<rparr>"

definition InvokeResolveCallback :: "StmtLabelForwardDecl \<Rightarrow> nat \<Rightarrow> Sema \<Rightarrow> Sema" where
  "InvokeResolveCallback Self Destination S =
     (case ResolveCallback Self of
        ResolveAssignStmtLabel \<Rightarrow> setAddress (Statement Self) (Some Destination) S
      | ResolveAssignedGotoStmtLabel \<Rightarrow>
          setAllowedValue (Statement Self) (ResolveCallbackData Self) (Some Destination) S
      | ResolveGotoStmtLabel \<Rightarrow> setDestination (Statement Self) (Some Destination) S
      | ResolveDoStmtLabel \<Rightarrow> setTerminatingStmt (Statement Self) (Some Destination) S)"

definition ForwardDecl ::
  "Expr \<Rightarrow> nat \<Rightarrow> ResolveCallbackTy \<Rightarrow> nat \<Rightarrow> StmtLabelForwardDecl" where
  "ForwardDecl Label Stmt' Callback Data =
     \<lparr> StmtLabel = Label, Statement = Stmt', ResolveCallback = Callback,
       ResolveCallbackData = Data \<rparr>"

definition ActOnAssignStmt ::
  "SMLoc \<Rightarrow> Expr \<Rightarrow> Expr \<Rightarrow> Expr option \<Rightarrow> Sema \<Rightarrow> nat option \<times> Sema" where
  "ActOnAssignStmt Loc Value VarRef Label S =
     (case StmtLabelScope_Resolve S Value of
        None \<Rightarrow>
          (let (Result, S1) = Create (Stmt_Create Stmt_Assign Loc Label [VarRef]) S;
               S2 = DeclareForwardReference (ForwardDecl Value Result ResolveAssignStmtLabel 0) S1
           in (Some Result, DeclareIfLabelled Label Result S2))
      | Some Decl \<Rightarrow>
          (let (Result, S1) =
                 Create ((Stmt_Create Stmt_Assign Loc Label [VarRef])\<lparr>getAddress := Some Decl\<rparr>) S
           in (Some Result, DeclareIfLabelled Label Result S1)))"

text \<open>
  The second loop of \<^verbatim>\<open>ActOnAssignedGotoStmt\<close>: a forward reference for every
  allowed value that did not resolve, with its index as the callback's data.
\<close>

fun DeclareAllowedForward ::
  "Expr list \<Rightarrow> nat option list \<Rightarrow> nat \<Rightarrow> nat \<Rightarrow> Sema \<Rightarrow> Sema" where
  "DeclareAllowedForward (V # Vs) (L # Ls) I Result S =
     DeclareAllowedForward Vs Ls (Suc I) Result
       (case L of
          None \<Rightarrow> DeclareForwardReference (ForwardDecl V Result ResolveAssignedGotoStmtLabel I) S
        | Some d \<Rightarrow> S)"
| "DeclareAllowedForward Vs Ls I Result S = S"

definition ActOnAssignedGotoStmt ::
  "SMLoc \<Rightarrow> Expr \<Rightarrow> Expr list \<Rightarrow> Expr option \<Rightarrow> Sema \<Rightarrow> nat option \<times> Sema" where
  "ActOnAssignedGotoStmt Loc VarRef AllowedValues Label S =
     (let AllowedLabels = map (StmtLabelScope_Resolve S) AllowedValues;
          (Result, S1) =
             Create ((Stmt_Create Stmt_AssignedGoto Loc Label [VarRef])
                       \<lparr>getAllowedValues := AllowedLabels\<rparr>) S;
          S2 = DeclareAllowedForward AllowedValues AllowedLabels 0 Result S1
      in (Some Result, DeclareIfLabelled Label Result S2))"

definition ActOnGotoStmt ::
  "SMLoc \<Rightarrow> Expr \<Rightarrow> Expr option \<Rightarrow> Sema \<Rightarrow> nat option \<times> Sema" where
  "ActOnGotoStmt Loc Destination Label S =
     (case StmtLabelScope_Resolve S Destination of
        None \<Rightarrow>
          (let (Result, S1) = Create (Stmt_Create Stmt_Goto Loc Label []) S;
               S2 = DeclareForwardReference
                      (ForwardDecl Destination Result ResolveGotoStmtLabel 0) S1
           in (Some Result, DeclareIfLabelled Label Result S2))
      | Some Decl \<Rightarrow>
          (let (Result, S1) =
                 Create ((Stmt_Create Stmt_Goto Loc Label [])\<lparr>getDestination := Some Decl\<rparr>) S
           in (Some Result, DeclareIfLabelled Label Result S1)))"

section \<open>Sema.cpp: the IF construct\<close>

definition IsLogicalExpression :: "Expr \<Rightarrow> bool" where
  "IsLogicalExpression E = isLogicalType (getType E)"

definition ReportExpectedLogical :: "Expr \<Rightarrow> Sema \<Rightarrow> Sema" where
  "ReportExpectedLogical E S =
     Report (err_typecheck_expected_logical_expr (getLocation E) (getType E)) S"

text \<open>The logical IF: the statement of its body is given, the stack is not touched.\<close>

definition ActOnIfStmt_logical ::
  "SMLoc \<Rightarrow> Expr \<Rightarrow> nat option \<Rightarrow> Expr option \<Rightarrow> Sema \<Rightarrow> nat option \<times> Sema" where
  "ActOnIfStmt_logical Loc Condition Body Label S =
     (if \<not> IsLogicalExpression Condition then (None, ReportExpectedLogical Condition S)
      else
        (let (Result, S1) = Create (Stmt_Create Stmt_If Loc Label [Condition]) S;
             S2 = setThenStmt Result Body S1
         in (Some Result, DeclareIfLabelled Label Result S2)))"

text \<open>The block IF: the new statement is pushed on the stack of open IF statements.\<close>

definition ActOnIfStmt ::
  "SMLoc \<Rightarrow> Expr \<Rightarrow> Expr option \<Rightarrow> Sema \<Rightarrow> nat option \<times> Sema" where
  "ActOnIfStmt Loc Condition Label S =
     (if \<not> IsLogicalExpression Condition then (None, ReportExpectedLogical Condition S)
      else
        (let (Result, S1) = Create (Stmt_Create Stmt_If Loc Label [Condition]) S;
             S2 = S1\<lparr>IfStmtStack := IfStmtStack S1 @ [Result]\<rparr>
         in (Some Result, DeclareIfLabelled Label Result S2)))"

definition ActOnElseIfStmt ::
  "SMLoc \<Rightarrow> Expr \<Rightarrow> Expr option \<Rightarrow> Sema \<Rightarrow> nat option \<times> Sema" where
  "ActOnElseIfStmt Loc Condition Label S =
     (if \<not> IsLogicalExpression Condition then (None, ReportExpectedLogical Condition S)
      else if IfStmtStack S = [] then (None, Report (err_stmt_not_in_if Loc ''ELSE IF'') S)
      else
        (let (Result, S1) = Create (Stmt_Create Stmt_If Loc Label [Condition]) S;
             S2 = setElseStmt (last (IfStmtStack S1)) (Some Result)
                    (S1\<lparr>IfStmtStack := butlast (IfStmtStack S1)\<rparr>);
             S3 = S2\<lparr>IfStmtStack := IfStmtStack S2 @ [Result]\<rparr>
         in (Some Result, DeclareIfLabelled Label Result S3)))"

definition ActOnElseStmt :: "SMLoc \<Rightarrow> Expr option \<Rightarrow> Sema \<Rightarrow> nat option \<times> Sema" where
  "ActOnElseStmt Loc Label S =
     (if IfStmtStack S = [] then (None, Report (err_stmt_not_in_if Loc ''ELSE'') S)
      else
        (let (Result, S1) = Create (Stmt_Create Stmt_Else Loc Label []) S
         in (Some Result, DeclareIfLabelled Label Result S1)))"

definition ActOnEndIfStmt :: "SMLoc \<Rightarrow> Expr option \<Rightarrow> Sema \<Rightarrow> nat option \<times> Sema" where
  "ActOnEndIfStmt Loc Label S =
     (if IfStmtStack S = [] then (None, Report (err_stmt_not_in_if Loc ''END IF'') S)
      else
        (let S0 = S\<lparr>IfStmtStack := butlast (IfStmtStack S)\<rparr>;
             (Result, S1) = Create (Stmt_Create Stmt_EndIf Loc Label []) S0
         in (Some Result, DeclareIfLabelled Label Result S1)))"

section \<open>Sema.cpp: the DO statement\<close>

definition ExpectRealOrIntegerOrDoublePrec ::
  "Expr \<Rightarrow> (SMLoc \<Rightarrow> Type \<Rightarrow> Diagnostic) \<Rightarrow> Sema \<Rightarrow> bool \<times> Sema" where
  "ExpectRealOrIntegerOrDoublePrec E DiagType S =
     (let T = getType E in
      if isIntegerType T \<or> isRealType T \<or> isDoublePrecisionType T then (False, S)
      else (True, Report (DiagType (getLocation E) (getType E)) S))"

fun IsValidDoLogicalIfThenStatement :: "Stmt \<Rightarrow> bool" where
  "IsValidDoLogicalIfThenStatement St =
     (case getStatementID St of
        Stmt_Do \<Rightarrow> False | Stmt_If \<Rightarrow> False
      | Stmt_Else \<Rightarrow> False | Stmt_EndIf \<Rightarrow> False
      | _ \<Rightarrow> True)"

definition IsValidDoTerminatingStatement :: "Stmt list \<Rightarrow> Stmt \<Rightarrow> bool" where
  "IsValidDoTerminatingStatement Arena St =
     (case getStatementID St of
        Stmt_Goto \<Rightarrow> False | Stmt_AssignedGoto \<Rightarrow> False
      | Stmt_Stop \<Rightarrow> False | Stmt_Do \<Rightarrow> False
      | Stmt_Else \<Rightarrow> False | Stmt_EndIf \<Rightarrow> False
      | Stmt_If \<Rightarrow>
          (case getThenStmt St of
             None \<Rightarrow> False
           | Some NextStmt \<Rightarrow> IsValidDoLogicalIfThenStatement (Arena ! NextStmt))
      | _ \<Rightarrow> True)"

definition ApplyDoConversionIfNeeded :: "Expr \<Rightarrow> Type \<Rightarrow> Expr" where
  "ApplyDoConversionIfNeeded E T =
     (if isIntegerType T then
        (if isIntegerType (getType E) then E
         else ConversionExpr_Create (getLocation E) Conv_INT E)
      else if isRealType T then
        (if isRealType (getType E) then E
         else ConversionExpr_Create (getLocation E) Conv_REAL E)
      else
        (if isDoublePrecisionType (getType E) then E
         else ConversionExpr_Create (getLocation E) Conv_DBLE E))"

definition ActOnDoStmt ::
  "SMLoc \<Rightarrow> Expr \<Rightarrow> Expr \<Rightarrow> Expr \<Rightarrow> Expr \<Rightarrow> Expr option \<Rightarrow> Expr option \<Rightarrow> Sema
     \<Rightarrow> nat option \<times> Sema" where
  "ActOnDoStmt Loc TerminatingStmt DoVar E1 E2 E3 Label S =
     (let (H0, S0) = ExpectRealOrIntegerOrDoublePrec DoVar err_typecheck_expected_do_var S;
          (H1, S1) = ExpectRealOrIntegerOrDoublePrec E1 err_typecheck_expected_do_expr S0;
          (H2, S2) = ExpectRealOrIntegerOrDoublePrec E2 err_typecheck_expected_do_expr S1;
          (H3, S3) = (case E3 of
                        Some E \<Rightarrow> ExpectRealOrIntegerOrDoublePrec E err_typecheck_expected_do_expr S2
                      | None \<Rightarrow> (False, S2))
      in
      if H0 \<or> H1 \<or> H2 \<or> H3 then (None, S3)
      else
        (let E1' = ApplyDoConversionIfNeeded E1 (getType DoVar);
             E2' = ApplyDoConversionIfNeeded E2 (getType DoVar);
             E3' = map_option (\<lambda>E. ApplyDoConversionIfNeeded E (getType DoVar)) E3
         in
         case StmtLabelScope_Resolve S3 TerminatingStmt of
           Some Decl \<Rightarrow>
             (None,
              Report (err_stmt_label_must_decl_after (getLocation TerminatingStmt)
                        TerminatingStmt ''DO'') S3)
         | None \<Rightarrow>
             (let (Result, S4) =
                    Create (Stmt_Create Stmt_Do Loc Label
                              ([DoVar, E1', E2'] @ (case E3' of Some E \<Rightarrow> [E] | None \<Rightarrow> []))) S3;
                  S5 = DeclareForwardReference
                         (ForwardDecl TerminatingStmt Result ResolveDoStmtLabel 0) S4;
                  S6 = S5\<lparr>DoStmtList := DoStmtList S5 @ [Result]\<rparr>
              in (Some Result, DeclareIfLabelled Label Result S6))))"

section \<open>Sema.cpp: other statements\<close>

definition ActOnSimpleStmt ::
  "StmtTy \<Rightarrow> SMLoc \<Rightarrow> Expr list \<Rightarrow> Expr option \<Rightarrow> Sema \<Rightarrow> nat option \<times> Sema" where
  "ActOnSimpleStmt ID Loc Ops Label S =
     (let (Result, S1) = Create (Stmt_Create ID Loc Label Ops) S
      in (Some Result, DeclareIfLabelled Label Result S1))"

definition ActOnContinueStmt :: "SMLoc \<Rightarrow> Expr option \<Rightarrow> Sema \<Rightarrow> nat option \<times> Sema" where
  "ActOnContinueStmt Loc Label S = ActOnSimpleStmt Stmt_Continue Loc [] Label S"

definition ActOnStopStmt ::
  "SMLoc \<Rightarrow> Expr option \<Rightarrow> Expr option \<Rightarrow> Sema \<Rightarrow> nat option \<times> Sema" where
  "ActOnStopStmt Loc StopCode Label S =
     ActOnSimpleStmt Stmt_Stop Loc (case StopCode of Some E \<Rightarrow> [E] | None \<Rightarrow> []) Label S"

definition ActOnENDPROGRAM :: "SMLoc \<Rightarrow> Expr option \<Rightarrow> Sema \<Rightarrow> nat option \<times> Sema" where
  "ActOnENDPROGRAM Loc Label S = ActOnSimpleStmt Stmt_EndProgram Loc [] Label S"

text \<open>
  The two IMPLICIT actions: with a type and letter specifications, and IMPLICIT NONE.
  Both create the statement and declare its label; neither records a rule.
\<close>

definition ActOnIMPLICIT ::
  "SMLoc \<Rightarrow> Type option \<Rightarrow> (string \<times> string option) list \<Rightarrow> Expr option \<Rightarrow> Sema
     \<Rightarrow> nat option \<times> Sema" where
  "ActOnIMPLICIT Loc Ty LetterSpecs Label S =
     (let (Result, S1) =
            Create ((Stmt_Create Stmt_Implicit Loc Label [])
                      \<lparr>getLetterSpecs := Some (Ty, LetterSpecs)\<rparr>) S
      in (Some Result, DeclareIfLabelled Label Result S1))"

definition ActOnIMPLICIT_NONE :: "SMLoc \<Rightarrow> Expr option \<Rightarrow> Sema \<Rightarrow> nat option \<times> Sema" where
  "ActOnIMPLICIT_NONE Loc Label S = ActOnSimpleStmt Stmt_Implicit Loc [] Label S"

section \<open>Sema.cpp: the end of an executable program unit\<close>

text \<open>The first loop: every forward reference is resolved or reported, in order.\<close>

fun FixForwardDecls :: "StmtLabelForwardDecl list \<Rightarrow> Sema \<Rightarrow> Sema" where
  "FixForwardDecls [] S = S"
| "FixForwardDecls (F # Fs) S =
     FixForwardDecls Fs
       (case StmtLabelScope_Resolve S (StmtLabel F) of
          Some Decl \<Rightarrow> InvokeResolveCallback F Decl S
        | None \<Rightarrow>
            Report (err_undeclared_stmt_label_use (getLocation (StmtLabel F)) (StmtLabel F)) S)"

text \<open>The second loop: one report for every IF statement still on the stack.\<close>

fun ReportOpenIfs :: "SMLoc \<Rightarrow> nat list \<Rightarrow> Sema \<Rightarrow> Sema" where
  "ReportOpenIfs Loc [] S = S"
| "ReportOpenIfs Loc (I # Is) S = ReportOpenIfs Loc Is (Report (err_expected_kw Loc ''END IF'') S)"

text \<open>The third loop: the terminating statement of every DO is checked.\<close>

fun CheckDoStmts :: "nat list \<Rightarrow> Sema \<Rightarrow> Sema" where
  "CheckDoStmts [] S = S"
| "CheckDoStmts (I # Is) S =
     CheckDoStmts Is
       (case getTerminatingStmt (Stmts S ! I) of
          Some T \<Rightarrow>
            (if \<not> IsValidDoTerminatingStatement (Stmts S) (Stmts S ! T)
             then Report (err_invalid_do_terminating_stmt (getStmtLocation (Stmts S ! T))) S
             else S)
        | None \<Rightarrow> S)"

text \<open>The reports the third loop makes for one DO statement, given the arena.\<close>

definition DoTerminatorReports :: "Stmt list \<Rightarrow> nat \<Rightarrow> Diagnostic list" where
  "DoTerminatorReports Arena I =
     (case getTerminatingStmt (Arena ! I) of
        Some T \<Rightarrow>
          (if IsValidDoTerminatingStatement Arena (Arena ! T) then []
           else [err_invalid_do_terminating_stmt (getStmtLocation (Arena ! T))])
      | None \<Rightarrow> [])"

definition PopExecutableProgramUnit :: "SMLoc \<Rightarrow> Sema \<Rightarrow> Sema" where
  "PopExecutableProgramUnit Loc S =
     (let S1 = FixForwardDecls (ForwardStmtLabelDeclsInScope S) S;
          S2 = StmtLabelScope_reset S1;
          S3 = ReportOpenIfs Loc (IfStmtStack S2) S2;
          S4 = S3\<lparr>IfStmtStack := []\<rparr>;
          S5 = CheckDoStmts (DoStmtList S4) S4
      in S5\<lparr>DoStmtList := []\<rparr>)"

text \<open>
  What a forward reference is about: the link of its statement that its resolve callback
  sets, read from the arena.
\<close>

definition Referenced :: "Stmt list \<Rightarrow> StmtLabelForwardDecl \<Rightarrow> nat option" where
  "Referenced Arena F =
     (case ResolveCallback F of
        ResolveAssignStmtLabel \<Rightarrow> getAddress (Arena ! Statement F)
      | ResolveAssignedGotoStmtLabel \<Rightarrow>
          getAllowedValues (Arena ! Statement F) ! ResolveCallbackData F
      | ResolveGotoStmtLabel \<Rightarrow> getDestination (Arena ! Statement F)
      | ResolveDoStmtLabel \<Rightarrow> getTerminatingStmt (Arena ! Statement F))"

text \<open>
  The forward references as the actions record them: every reference is recorded with
  the statement that was just created for it, an assigned GOTO records one reference for
  each of its allowed values that did not resolve, with the index of the value, and every
  other statement records one reference at most. So no two recorded references are about
  the same link, and a reference is about a link that exists.
\<close>

definition ReferenceSlot :: "StmtLabelForwardDecl \<Rightarrow> nat \<times> ResolveCallbackTy \<times> nat" where
  "ReferenceSlot F =
     (Statement F, ResolveCallback F,
      if ResolveCallback F = ResolveAssignedGotoStmtLabel then ResolveCallbackData F else 0)"

definition SlotExists :: "Stmt list \<Rightarrow> StmtLabelForwardDecl \<Rightarrow> bool" where
  "SlotExists Arena F \<longleftrightarrow>
     Statement F < length Arena \<and>
     (ResolveCallback F = ResolveAssignedGotoStmtLabel \<longrightarrow>
        ResolveCallbackData F < length (getAllowedValues (Arena ! Statement F)))"

definition WellRecorded :: "Sema \<Rightarrow> bool" where
  "WellRecorded S \<longleftrightarrow>
     distinct (map ReferenceSlot (ForwardStmtLabelDeclsInScope S)) \<and>
     (\<forall>F \<in> set (ForwardStmtLabelDeclsInScope S). SlotExists (Stmts S) F)"

section \<open>Sema.cpp: entity declarations\<close>

text \<open>
  A \<^verbatim>\<open>DeclSpec\<close> as these actions read it: the type specifier and whether it has
  attributes, among them the dimension attribute. A fresh \<^verbatim>\<open>DeclSpec\<close> has no
  attributes. \<^verbatim>\<open>TST_struct\<close> leaves the null type.
\<close>

datatype TST =
  TST_unspecified | TST_integer | TST_real | TST_doubleprecision | TST_character
  | TST_logical | TST_complex | TST_struct

record DeclSpec =
  getTypeSpecType :: TST
  hasAttributes :: bool
  hasDimension :: bool

definition DeclSpec_init :: DeclSpec where
  "DeclSpec_init = \<lparr> getTypeSpecType = TST_unspecified, hasAttributes = False, hasDimension = False \<rparr>"

definition ActOnTypeName :: "DeclSpec \<Rightarrow> Type option" where
  "ActOnTypeName DS =
     (let Result =
        (case getTypeSpecType DS of
           TST_integer \<Rightarrow> Some (BuiltinType Integer)
         | TST_unspecified \<Rightarrow> Some (BuiltinType Real)
         | TST_real \<Rightarrow> Some (BuiltinType Real)
         | TST_doubleprecision \<Rightarrow> Some (BuiltinType DoublePrecision)
         | TST_character \<Rightarrow> Some (BuiltinType Character)
         | TST_logical \<Rightarrow> Some (BuiltinType Logical)
         | TST_complex \<Rightarrow> Some (BuiltinType Complex)
         | TST_struct \<Rightarrow> None)
      in
      if \<not> hasAttributes DS then Result
      else if \<not> hasDimension DS then Result
      else map_option ArrayType Result)"

definition ActOnEntityDecl :: "DeclSpec \<Rightarrow> SMLoc \<Rightarrow> string \<Rightarrow> Sema \<Rightarrow> VarDecl option \<times> Sema" where
  "ActOnEntityDecl DS IDLoc IDInfo S =
     (case FETokenInfo S IDInfo of
        Some Prev \<Rightarrow>
          (if getDeclContext Prev = CurContext S then
             (None,
              Report (ReportNote (getDeclLocation Prev) ''previous declaration'')
                (Report (ReportError IDLoc (''variable '' @ [CHR 0x27] @ IDInfo @ [CHR 0x27]
                           @ '' already declared'')) S))
           else
             (let VD = VarDecl (CurContext S) IDLoc IDInfo (ActOnTypeName DS) LocalVariable None
              in (Some VD,
                  S\<lparr>DeclsInContext := DeclsInContext S @ [VD],
                    FETokenInfo := (FETokenInfo S)(IDInfo \<mapsto> VD)\<rparr>)))
      | None \<Rightarrow>
          (let VD = VarDecl (CurContext S) IDLoc IDInfo (ActOnTypeName DS) LocalVariable None
           in (Some VD,
               S\<lparr>DeclsInContext := DeclsInContext S @ [VD],
                 FETokenInfo := (FETokenInfo S)(IDInfo \<mapsto> VD)\<rparr>)))"

text \<open>
  \<^verbatim>\<open>toupper\<close> in the C locale, on character codes, and the first character of an
  identifier (the terminating zero for the empty name).
\<close>

definition toupper :: "nat \<Rightarrow> nat" where
  "toupper c = (if 97 \<le> c \<and> c \<le> 122 then c - 32 else c)"

definition getNameStart0 :: "string \<Rightarrow> nat" where
  "getNameStart0 Name = (case Name of [] \<Rightarrow> 0 | c # cs \<Rightarrow> of_char c)"

definition ActOnImplicitEntityDecl :: "SMLoc \<Rightarrow> string \<Rightarrow> Sema \<Rightarrow> VarDecl option \<times> Sema" where
  "ActOnImplicitEntityDecl IDLoc IDInfo S =
     (let letter = toupper (getNameStart0 IDInfo);
          DS = (if of_char CHR ''I'' \<le> letter \<and> letter \<le> of_char CHR ''N''
                then DeclSpec_init\<lparr>getTypeSpecType := TST_integer\<rparr>
                else DeclSpec_init\<lparr>getTypeSpecType := TST_real\<rparr>)
      in ActOnEntityDecl DS IDLoc IDInfo S)"

section \<open>The implicit typing scope (Scope.cpp)\<close>

text \<open>
  The letters are C \<^verbatim>\<open>char\<close>s: a byte, signed as on the x86-64 targets, so
  \<^verbatim>\<open>Low <= High\<close> compares the signed values and \<^verbatim>\<open>++Low\<close> wraps around from
  the largest \<^verbatim>\<open>char\<close> to the smallest. \<^verbatim>\<open>toupper\<close> is the one of the C locale;
  it leaves every byte that is not a lower-case letter as it is. The first character of
  an identifier is read as it is stored (the terminating zero for the empty name).
\<close>

definition toupper_char :: "8 word \<Rightarrow> 8 word" where
  "toupper_char c = (if 97 \<le> sint c \<and> sint c \<le> 122 then c - 32 else c)"

definition getNameStart0_char :: "string \<Rightarrow> 8 word" where
  "getNameStart0_char Name = (case Name of [] \<Rightarrow> 0 | c # cs \<Rightarrow> of_char c)"

text \<open>
  A scope has its parent, its rules (a map from the one-letter key to the type) and the
  \<^verbatim>\<open>None\<close> flag. A letter specification is the identifier of the first letter and,
  for a range, the identifier of the last one.
\<close>

datatype RuleType = NoneRule | TypeRule | DefaultRule

datatype ImplicitTypingScope =
  ImplicitTypingScope (Parent: "ImplicitTypingScope option") (Rules: "8 word \<rightharpoonup> Type option")
    (None_flag: bool)

definition ImplicitTypingScope_init :: ImplicitTypingScope where
  "ImplicitTypingScope_init = ImplicitTypingScope None Map.empty False"

definition setRules :: "(8 word \<rightharpoonup> Type option) \<Rightarrow> ImplicitTypingScope \<Rightarrow> ImplicitTypingScope" where
  "setRules R Sc = ImplicitTypingScope (Parent Sc) R (None_flag Sc)"

text \<open>
  The loop of \<^verbatim>\<open>Apply\<close> over the letters of a range. It goes on while
  \<^verbatim>\<open>Low <= High\<close> and ends early at a letter that has a rule; every turn that goes on
  has given a rule to a letter that had none, which is why it ends.
\<close>

function Apply_range ::
  "8 word \<Rightarrow> 8 word \<Rightarrow> Type option \<Rightarrow> (8 word \<rightharpoonup> Type option)
     \<Rightarrow> bool \<times> (8 word \<rightharpoonup> Type option)" where
  "Apply_range Low High T R =
     (if sint Low \<le> sint High then
        (if R Low \<noteq> None then (False, R)
         else Apply_range (Low + 1) High T (R(Low \<mapsto> T)))
      else (True, R))"
  by pat_completeness auto
termination
proof (relation "measure (\<lambda>(Low, High, T, R). card {c. R c = None})")
  show "wf (measure (\<lambda>(Low, High, T, R). card {c :: 8 word. R c = None}))"
    by simp
next
  fix Low High :: "8 word" and T :: "Type option" and R :: "8 word \<rightharpoonup> Type option"
  assume "\<not> R Low \<noteq> None"
  then have free: "R Low = None" by simp
  have "{c. (R(Low \<mapsto> T)) c = None} = {c. R c = None} - {Low}"
    by auto
  moreover have "card ({c. R c = None} - {Low}) < card {c. R c = None}"
    using free by (intro card_Diff1_less) simp_all
  ultimately show "((Low + 1, High, T, R(Low \<mapsto> T)), (Low, High, T, R))
      \<in> measure (\<lambda>(Low, High, T, R). card {c. R c = None})"
    by simp
qed

declare Apply_range.simps [simp del]

definition ImplicitTypingScope_Apply ::
  "string \<times> string option \<Rightarrow> Type option \<Rightarrow> ImplicitTypingScope \<Rightarrow> bool \<times> ImplicitTypingScope" where
  "ImplicitTypingScope_Apply Spec T Sc =
     (if None_flag Sc then (False, Sc)
      else
        (let Low = toupper_char (getNameStart0_char (fst Spec)) in
         case snd Spec of
           Some second \<Rightarrow>
             (let High = toupper_char (getNameStart0_char second);
                  (Res, R) = Apply_range Low High T (Rules Sc)
              in (Res, setRules R Sc))
         | None \<Rightarrow>
             (if Rules Sc Low \<noteq> None then (False, Sc)
              else (True, setRules ((Rules Sc)(Low \<mapsto> T)) Sc))))"

definition ImplicitTypingScope_ApplyNone :: "ImplicitTypingScope \<Rightarrow> bool \<times> ImplicitTypingScope" where
  "ImplicitTypingScope_ApplyNone Sc =
     (if Rules Sc \<noteq> Map.empty then (False, Sc)
      else (True, ImplicitTypingScope (Parent Sc) (Rules Sc) True))"

fun ImplicitTypingScope_Resolve :: "ImplicitTypingScope \<Rightarrow> string \<Rightarrow> RuleType \<times> Type option" where
  "ImplicitTypingScope_Resolve (ImplicitTypingScope P R N) IdInfo =
     (if N then (NoneRule, None)
      else
        (case R (toupper_char (getNameStart0_char IdInfo)) of
           Some T \<Rightarrow> (TypeRule, T)
         | None \<Rightarrow>
             (case P of
                Some Parent' \<Rightarrow> ImplicitTypingScope_Resolve Parent' IdInfo
              | None \<Rightarrow> (DefaultRule, None))))"

section \<open>The integer constant-expression evaluator (ExprConstant.cpp)\<close>

text \<open>
  \<^verbatim>\<open>IntValueTy\<close> is a 64-bit \<^verbatim>\<open>APInt\<close>. The operations of \<^verbatim>\<open>APInt\<close> the
  evaluator calls are written as LLVM computes them: the result wraps around, and the
  overflow flag is computed from the signs (addition, subtraction), from dividing the
  product back (multiplication), or for the one overflowing quotient (division). The
  signed division is computed on the magnitudes by the unsigned division, which asserts
  that the divisor is not zero.
\<close>

type_synonym IntValueTy = "64 word"

definition isNegative :: "IntValueTy \<Rightarrow> bool" where
  "isNegative a = (sint a < 0)"

definition isNonNegative :: "IntValueTy \<Rightarrow> bool" where
  "isNonNegative a = (\<not> isNegative a)"

definition isMinSignedValue :: "IntValueTy \<Rightarrow> bool" where
  "isMinSignedValue a = (a = word_of_int (- (2 ^ 63)))"

definition isAllOnesValue :: "IntValueTy \<Rightarrow> bool" where
  "isAllOnesValue a = (a = - 1)"

definition APInt_sdiv :: "IntValueTy \<Rightarrow> IntValueTy \<Rightarrow> IntValueTy" where
  "APInt_sdiv a b =
     (if isNegative a then
        (if isNegative b then (- a) div (- b) else - ((- a) div b))
      else if isNegative b then - (a div (- b))
      else a div b)"

definition sadd_ov :: "IntValueTy \<Rightarrow> IntValueTy \<Rightarrow> IntValueTy \<times> bool" where
  "sadd_ov a b =
     (let Res = a + b
      in (Res, isNonNegative a = isNonNegative b \<and> isNonNegative Res \<noteq> isNonNegative a))"

definition ssub_ov :: "IntValueTy \<Rightarrow> IntValueTy \<Rightarrow> IntValueTy \<times> bool" where
  "ssub_ov a b =
     (let Res = a - b
      in (Res, isNonNegative a \<noteq> isNonNegative b \<and> isNonNegative Res \<noteq> isNonNegative a))"

definition smul_ov :: "IntValueTy \<Rightarrow> IntValueTy \<Rightarrow> IntValueTy \<times> bool" where
  "smul_ov a b =
     (let Res = a * b
      in (Res,
          if a \<noteq> 0 \<and> b \<noteq> 0 then APInt_sdiv Res b \<noteq> a \<or> APInt_sdiv Res a \<noteq> b
          else False))"

definition sdiv_ov :: "IntValueTy \<Rightarrow> IntValueTy \<Rightarrow> IntValueTy \<times> bool" where
  "sdiv_ov a b = (APInt_sdiv a b, isMinSignedValue a \<and> isAllOnesValue b)"

text \<open>
  \<^verbatim>\<open>getLimitedValue\<close> of an \<^verbatim>\<open>APInt\<close> of any width, and the members of
  \<^verbatim>\<open>IntValueTy\<close> at \<^verbatim>\<open>T = int64_t\<close>.
\<close>

definition getLimitedValue :: "nat \<Rightarrow> nat" where
  "getLimitedValue v = min v (2 ^ 64 - 1)"

definition IsProperSignedInt :: "IntValueTy \<Rightarrow> bool" where
  "IsProperSignedInt a =
     (if isNonNegative a then unat a \<le> 2 ^ 63 - 1 else - (2 ^ 63) \<le> sint a)"

text \<open>
  What a visit of the evaluator ends in: it returns true and leaves the value in
  \<^verbatim>\<open>Result\<close>, it returns false, or the process is stopped (a division by zero in
  \<^verbatim>\<open>APInt\<close>, or a PARAMETER without an initializer).
\<close>

datatype EvalOutcome = Success IntValueTy | Failure | Aborted

definition Assign :: "nat \<Rightarrow> EvalOutcome" where
  "Assign I =
     (let u64 = getLimitedValue I
      in if u64 \<le> 2 ^ 63 - 1 then Success (of_nat u64) else Failure)"

definition CheckResult :: "IntValueTy \<times> bool \<Rightarrow> EvalOutcome" where
  "CheckResult R =
     (case R of (Result, Overflow) \<Rightarrow>
        if Overflow \<or> \<not> IsProperSignedInt Result then Failure else Success Result)"

text \<open>The loop of the power operator: \<open>N\<close> multiplications of the running product by \<open>Result\<close>.\<close>

fun Power_loop :: "nat \<Rightarrow> IntValueTy \<Rightarrow> IntValueTy \<Rightarrow> IntValueTy option" where
  "Power_loop 0 Result Sum0 = Some Sum0"
| "Power_loop (Suc N) Result Sum0 =
     (case smul_ov Sum0 Result of (Sum1, Overflow) \<Rightarrow>
        if Overflow \<or> \<not> IsProperSignedInt Sum1 then None
        else Power_loop N Result Sum1)"

definition BinaryOperation :: "BinaryOperator \<Rightarrow> IntValueTy \<Rightarrow> IntValueTy \<Rightarrow> EvalOutcome" where
  "BinaryOperation Op Result RHS =
     (case Op of
        BO_Plus \<Rightarrow> CheckResult (sadd_ov Result RHS)
      | BO_Minus \<Rightarrow> CheckResult (ssub_ov Result RHS)
      | BO_Multiply \<Rightarrow> CheckResult (smul_ov Result RHS)
      | BO_Divide \<Rightarrow> (if RHS = 0 then Aborted else CheckResult (sdiv_ov Result RHS))
      | BO_Power \<Rightarrow>
          (if isNegative RHS then Failure
           else
             (case Power_loop (unat RHS) Result 1 of
                None \<Rightarrow> Failure
              | Some Sum0 \<Rightarrow> CheckResult (Sum0, False)))
      | _ \<Rightarrow> Failure)"

fun Eval :: "Expr \<Rightarrow> EvalOutcome" where
  "Eval (IntegerConstantExpr L T v) = (if isIntegerType T then Assign v else Failure)"
| "Eval (UnaryExpr L T Op E) =
     (if isIntegerType T then
        (case Op of
           UO_Minus \<Rightarrow>
             (case Eval E of
                Success Result \<Rightarrow> CheckResult (ssub_ov 0 Result)
              | Failure \<Rightarrow> Failure
              | Aborted \<Rightarrow> Aborted)
         | UO_Plus \<Rightarrow> Eval E
         | UO_Not \<Rightarrow> Failure)
      else Failure)"
| "Eval (BinaryExpr L T Op LHS RHS) =
     (if isIntegerType T then
        (case Eval RHS of
           Failure \<Rightarrow> Failure
         | Aborted \<Rightarrow> Aborted
         | Success R \<Rightarrow>
             (case Eval LHS of
                Failure \<Rightarrow> Failure
              | Aborted \<Rightarrow> Aborted
              | Success Result \<Rightarrow> BinaryOperation Op Result R))
      else Failure)"
| "Eval (VarExpr L T (VarDecl DC DL ID DT VK Init)) =
     (if isIntegerType T then
        (if VK = ParameterVariable then
           (case Init of Some I \<Rightarrow> Eval I | None \<Rightarrow> Aborted)
         else Failure)
      else Failure)"
| "Eval (ConstantExpr L T) = Failure"
| "Eval (ConversionExpr L T K E) = Failure"
| "Eval (OtherExpr L T) = Failure"

text \<open>
  \<^verbatim>\<open>Expr::EvaluateAsInt\<close>: whether the expression folds, when the evaluation
  returns at all.
\<close>

definition EvaluateAsInt :: "Expr \<Rightarrow> bool option" where
  "EvaluateAsInt E =
     (case Eval E of Success R \<Rightarrow> Some True | Failure \<Rightarrow> Some False | Aborted \<Rightarrow> None)"

section \<open>Checked arithmetic, as the specification words it\<close>

text \<open>
  The mathematical side: a value is representable when it is a 64-bit signed integer, the
  division truncates towards zero, and a checked operation yields its value when there is
  one and it is representable, and nothing otherwise. The quotient by zero has no value.
  The evaluator is to fold to the value, and to return false where there is none.
\<close>

definition in_int64 :: "int \<Rightarrow> bool" where
  "in_int64 v \<longleftrightarrow> - (2 ^ 63) \<le> v \<and> v < 2 ^ 63"

definition tquot :: "int \<Rightarrow> int \<Rightarrow> int" where
  "tquot x y = sgn x * sgn y * (\<bar>x\<bar> div \<bar>y\<bar>)"

definition checked :: "int \<Rightarrow> int option" where
  "checked v = (if in_int64 v then Some v else None)"

definition spec_binary :: "BinaryOperator \<Rightarrow> int \<Rightarrow> int \<Rightarrow> int option" where
  "spec_binary Op a b =
     (case Op of
        BO_Plus \<Rightarrow> checked (a + b)
      | BO_Minus \<Rightarrow> checked (a - b)
      | BO_Multiply \<Rightarrow> checked (a * b)
      | BO_Divide \<Rightarrow> (if b = 0 then None else checked (tquot a b))
      | BO_Power \<Rightarrow> (if b < 0 then None else checked (a ^ nat b))
      | _ \<Rightarrow> None)"

definition folds_or_fails :: "int option \<Rightarrow> EvalOutcome" where
  "folds_or_fails r = (case r of Some v \<Rightarrow> Success (word_of_int v) | None \<Rightarrow> Failure)"

section \<open>Array sections and the emitted code (CGArray.cpp)\<close>

text \<open>
  A section of a dimension is a range (offset, size, stride), a single element, or a
  vector. The operands are \<^verbatim>\<open>llvm::Value\<close>s of the index type; each is modelled by
  the value \<open>'v\<close> it has while the loop nest runs, which the emitter takes to be a word
  of the width \<open>'w\<close> of the index type (the type \<^verbatim>\<open>IntegerTy\<close> converts to).
\<close>

record 'v ArrayRangeSection =
  Offset :: "'v option"
  Size :: "'v"
  Stride :: "'v option"

datatype 'v ArraySection =
    RangeSection "'v ArrayRangeSection"
  | ElementSection "'v"
  | VectorSection "'v"


text \<open>
  The code the emitter writes. A basic block is known by the section whose loop it was
  created for and by the name it was created under (\<^verbatim>\<open>array-dim-loop\<close>,
  \<^verbatim>\<open>array-dim-loop-body\<close>, \<^verbatim>\<open>array-dim-loop-end\<close>); \<open>Entry\<close> is the block the
  builder stands in when the emission starts. The counter a section's loop allocates is
  known by the index of the section, and so is the value its load yields. The
  instructions are the ones the emitter creates: a store of a constant to a counter, the
  load of a counter into the element index of its dimension, the store of a counter's
  value plus one, the conditional branch on the unsigned comparison of a counter with a
  size, and the branch. The element operation emitted between the start and the end of
  the iteration is straight-line code and stands as one instruction.
\<close>

datatype BlockId = Entry | LoopCond nat | LoopBody nat | LoopEnd nat

datatype 'v Instr =
    StoreConst "'v" nat
  | LoadElement nat
  | StoreIncrement nat
  | CondBrULT nat "'v" BlockId BlockId
  | Br BlockId
  | ElementOperation

record LoopInfo =
  EndBlock :: "BlockId option"
  TestBlock :: "BlockId option"
  Counter :: "nat option"

definition LoopInfo_init :: LoopInfo where
  "LoopInfo_init = \<lparr> EndBlock = None, TestBlock = None, Counter = None \<rparr>"

record 'v Emitter =
  Blocks :: "BlockId \<Rightarrow> 'v Instr list"
  InsertBlock :: "BlockId option"
  Elements :: "nat option list"
  Loops :: "LoopInfo list"

definition Emitter_init :: "'v Emitter" where
  "Emitter_init =
     \<lparr> Blocks = (\<lambda>b. []), InsertBlock = Some Entry, Elements = [], Loops = [] \<rparr>"

text \<open>The builder appends an instruction at the insertion point, if there is one.\<close>

definition Insert :: "'v Instr \<Rightarrow> 'v Emitter \<Rightarrow> 'v Emitter" where
  "Insert i E =
     (case InsertBlock E of
        None \<Rightarrow> E
      | Some b \<Rightarrow> E\<lparr>Blocks := (Blocks E)(b := Blocks E b @ [i])\<rparr>)"

fun isTerminator :: "'v Instr \<Rightarrow> bool" where
  "isTerminator (CondBrULT v s t e) = True"
| "isTerminator (Br b) = True"
| "isTerminator i = False"

definition getTerminator :: "'v Instr list \<Rightarrow> bool" where
  "getTerminator is = (is \<noteq> [] \<and> isTerminator (last is))"

text \<open>
  \<^verbatim>\<open>CodeGenFunction::EmitBranch\<close> and \<^verbatim>\<open>CodeGenFunction::EmitBlock\<close> are
  defined in CodeGenFunction.cpp, which is not among the sources. The emitter takes them
  as they are given, with the \<^verbatim>\<open>CodeGenFunction\<close> it works for.
\<close>

record 'v CodeGenFunction =
  EmitBranch :: "BlockId \<Rightarrow> 'v Emitter \<Rightarrow> 'v Emitter"
  EmitBlock :: "BlockId \<Rightarrow> 'v Emitter \<Rightarrow> 'v Emitter"

text \<open>The body of the loop of \<^verbatim>\<open>EmitArrayIterationBegin\<close>, for the section \<open>I\<close>.\<close>

definition BeginSection ::
  "'w::len word CodeGenFunction \<Rightarrow> 'w word ArraySection list \<Rightarrow> nat \<Rightarrow> 'w word Emitter
     \<Rightarrow> 'w word Emitter" where
  "BeginSection CGF Sections I E =
     (case Sections ! I of
        RangeSection Rng \<Rightarrow>
          (let E1 = Insert (StoreConst 0 I) E;
               E2 = EmitBlock CGF (LoopCond I) E1;
               E3 = Insert (CondBrULT I (Size Rng) (LoopBody I) (LoopEnd I)) E2;
               E4 = EmitBlock CGF (LoopBody I) E3;
               E5 = Insert (LoadElement I) E4
           in E5\<lparr>Elements := (Elements E5)[I := Some I],
                 Loops := (Loops E5)[I := \<lparr> EndBlock = Some (LoopEnd I),
                                           TestBlock = Some (LoopCond I),
                                           Counter = Some I \<rparr>]\<rparr>)
      | _ \<Rightarrow>
          E\<lparr>Elements := (Elements E)[I := None],
            Loops := (Loops E)[I := (Loops E ! I)\<lparr>EndBlock := None\<rparr>]\<rparr>)"

text \<open>The loop itself: from the last section to the first.\<close>

fun BeginSections ::
  "'w::len word CodeGenFunction \<Rightarrow> 'w word ArraySection list \<Rightarrow> nat \<Rightarrow> 'w word Emitter
     \<Rightarrow> 'w word Emitter" where
  "BeginSections CGF Sections 0 E = E"
| "BeginSections CGF Sections (Suc I) E =
     BeginSections CGF Sections I (BeginSection CGF Sections I E)"

definition EmitArrayIterationBegin ::
  "'w::len word CodeGenFunction \<Rightarrow> 'w word ArraySection list \<Rightarrow> 'w word Emitter
     \<Rightarrow> 'w word Emitter" where
  "EmitArrayIterationBegin CGF Sections E =
     BeginSections CGF Sections (length Sections)
       (E\<lparr>Elements := replicate (length Sections) None,
          Loops := replicate (length Sections) LoopInfo_init\<rparr>)"

text \<open>\<^verbatim>\<open>EmitArrayIterationEnd\<close>: the loops from the first to the last.\<close>

definition EndLoop :: "'v CodeGenFunction \<Rightarrow> LoopInfo \<Rightarrow> 'v Emitter \<Rightarrow> 'v Emitter" where
  "EndLoop CGF Loop E =
     (case EndBlock Loop of
        None \<Rightarrow> E
      | Some End \<Rightarrow>
          EmitBlock CGF End
            (EmitBranch CGF (the (TestBlock Loop))
              (Insert (StoreIncrement (the (Counter Loop))) E)))"

fun EndLoops :: "'v CodeGenFunction \<Rightarrow> LoopInfo list \<Rightarrow> 'v Emitter \<Rightarrow> 'v Emitter" where
  "EndLoops CGF [] E = E"
| "EndLoops CGF (Loop # Ls) E = EndLoops CGF Ls (EndLoop CGF Loop E)"

definition EmitArrayIterationEnd :: "'v CodeGenFunction \<Rightarrow> 'v Emitter \<Rightarrow> 'v Emitter" where
  "EmitArrayIterationEnd CGF E = EndLoops CGF (Loops E) E"

text \<open>
  An array assignment over the sections of its left side: the start of the iteration,
  the element operation, the end of the iteration.
\<close>

definition EmitArrayAssignment ::
  "'w::len word CodeGenFunction \<Rightarrow> 'w word ArraySection list \<Rightarrow> 'w word Emitter
     \<Rightarrow> 'w word Emitter" where
  "EmitArrayAssignment CGF Sections E =
     EmitArrayIterationEnd CGF
       (Insert ElementOperation (EmitArrayIterationBegin CGF Sections E))"

text \<open>
  What the two helpers are taken to do, as their names and their use in the emitter say:
  \<^verbatim>\<open>EmitBranch\<close> ends the current block with a branch to the target unless there is
  no current block or it has a terminator already, and leaves the builder without an
  insertion point; \<^verbatim>\<open>EmitBlock\<close> does the same and then moves the insertion point
  to the start of the new block.
\<close>

definition FallThroughHelpers :: "'v CodeGenFunction" where
  "FallThroughHelpers =
     \<lparr> EmitBranch = (\<lambda>Target E.
         case InsertBlock E of
           None \<Rightarrow> E
         | Some CurBB \<Rightarrow>
             (if getTerminator (Blocks E CurBB) then E else Insert (Br Target) E)
               \<lparr>InsertBlock := None\<rparr>),
       EmitBlock = (\<lambda>BB E.
         (case InsertBlock E of
            None \<Rightarrow> E
          | Some CurBB \<Rightarrow>
              (if getTerminator (Blocks E CurBB) then E else Insert (Br BB) E))
           \<lparr>InsertBlock := Some BB\<rparr>) \<rparr>"




section \<open>Running the emitted code\<close>









section \<open>The element order of the specification\<close>




section \<open>The driver (Main.cpp)\<close>

text \<open>
  The options the driver reads, and what a run meets outside of it: whether the input
  can be opened, the severities of the diagnostics the parser and Sema report to the
  diagnostics engine, and what the engine answers to \<^verbatim>\<open>hadErrors\<close> and
  \<^verbatim>\<open>hadWarnings\<close> once the source file has ended. The engine and its clients are
  not among the sources, so the answers are given with the run, for the client that is in
  place: the \<^verbatim>\<open>TextDiagnosticPrinter\<close> the engine is created with, or the
  \<^verbatim>\<open>VerifyDiagnosticConsumer\<close> that \<^verbatim>\<open>-verify\<close> sets. The results of
  \<^verbatim>\<open>EmitFile\<close>, \<^verbatim>\<open>EmitOutputFile\<close> and \<^verbatim>\<open>LinkFiles\<close> are dropped by their
  callers, so they are not part of a run. The run is observed by the list of what it
  invoked and by the exit status.
\<close>

datatype Severity = SevNote | SevWarning | SevError

datatype DiagnosticClient = TextDiagnosticPrinter | VerifyDiagnosticConsumer

record DriverOptions =
  SyntaxOnly :: bool
  RunVerifier :: bool
  EmitASM :: bool
  EmitLLVM :: bool
  CompileOnly :: bool
  PrintAST :: bool
  DumpAST :: bool
  OutputFile :: string

record DriverRun =
  InputOpens :: bool
  Reported :: "Severity list"
  hadErrors :: "DiagnosticClient \<Rightarrow> bool"
  hadWarnings :: "DiagnosticClient \<Rightarrow> bool"

datatype DriverAction = DumpTheAST | CodeGen | EmitToStdout | EmitToOutputFile | LinkTheFiles

definition getClient :: "DriverOptions \<Rightarrow> DiagnosticClient" where
  "getClient Opts = (if RunVerifier Opts then VerifyDiagnosticConsumer else TextDiagnosticPrinter)"

definition ParseFile :: "DriverOptions \<Rightarrow> DriverRun \<Rightarrow> bool \<times> DriverAction list" where
  "ParseFile Opts R =
     (if \<not> InputOpens R then (True, [])
      else
        (let Client = getClient Opts;
             Dump = (if PrintAST Opts \<or> DumpAST Opts then [DumpTheAST] else []);
             Emit = (if \<not> SyntaxOnly Opts \<and> \<not> hadErrors R Client then
                       [CodeGen,
                        if OutputFile Opts = ''-'' then EmitToStdout else EmitToOutputFile]
                     else [])
         in (hadErrors R Client, Dump @ Emit)))"

definition driver_main :: "DriverOptions \<Rightarrow> DriverRun \<Rightarrow> int \<times> DriverAction list" where
  "driver_main Opts R =
     (let (HadErrors, Acts) = ParseFile Opts R;
          Link = (if \<not> HadErrors \<and> \<not> CompileOnly Opts \<and> \<not> EmitLLVM Opts \<and> \<not> EmitASM Opts
                  then [LinkTheFiles] else [])
      in ((if HadErrors then 1 else 0), Acts @ Link))"

text \<open>
  The file holds a second, earlier revision of the driver after the first. There the
  tree is always dumped, the code generator runs whenever the run is not
  \<^verbatim>\<open>-fsyntax-only\<close>, and the result of \<^verbatim>\<open>ParseFile\<close>, which is the exit status,
  is true for warnings as well.
\<close>

definition ParseFile_earlier :: "DriverOptions \<Rightarrow> DriverRun \<Rightarrow> bool \<times> DriverAction list" where
  "ParseFile_earlier Opts R =
     (if \<not> InputOpens R then (True, [])
      else
        (let Client = getClient Opts;
             Emit = (if \<not> SyntaxOnly Opts then
                       [CodeGen,
                        if OutputFile Opts = ''-'' then EmitToStdout else EmitToOutputFile]
                     else [])
         in (hadErrors R Client \<or> hadWarnings R Client, DumpTheAST # Emit)))"

definition driver_main_earlier :: "DriverOptions \<Rightarrow> DriverRun \<Rightarrow> int \<times> DriverAction list" where
  "driver_main_earlier Opts R =
     (let (Res, Acts) = ParseFile_earlier Opts R in ((if Res then 1 else 0), Acts))"

text \<open>
  The options of a plain compilation to \<^verbatim>\<open>a.out\<close>, and a run under the printing
  client, which counts a diagnostic of error severity as an error and one of warning
  severity as a warning.
\<close>

definition plain_options :: DriverOptions where
  "plain_options =
     \<lparr> SyntaxOnly = False, RunVerifier = False, EmitASM = False, EmitLLVM = False,
       CompileOnly = False, PrintAST = False, DumpAST = False, OutputFile = ''a.out'' \<rparr>"

definition printed_run :: "Severity list \<Rightarrow> DriverRun" where
  "printed_run Ds =
     \<lparr> InputOpens = True, Reported = Ds,
       hadErrors = (\<lambda>Client. SevError \<in> set Ds),
       hadWarnings = (\<lambda>Client. SevWarning \<in> set Ds) \<rparr>"

section \<open>Example program units\<close>

text \<open>
  Small program units, as the sequences of actions the parser makes for them. Labels are
  integer constants, \<open>L\<close> is a logical and \<open>I\<close> an integer expression.
\<close>

definition label :: "SMLoc \<Rightarrow> nat \<Rightarrow> Expr" where
  "label Loc v = IntegerConstantExpr Loc (BuiltinType Integer) v"

definition logical_expr :: "SMLoc \<Rightarrow> Expr" where
  "logical_expr Loc = OtherExpr Loc (BuiltinType Logical)"

definition integer_expr :: "SMLoc \<Rightarrow> Expr" where
  "integer_expr Loc = OtherExpr Loc (BuiltinType Integer)"

text \<open>\<^verbatim>\<open>GOTO 100; GOTO 200; 100 CONTINUE\<close>\<close>

definition unit_goto :: Sema where
  "unit_goto =
     snd (ActOnContinueStmt 3 (Some (label 3 100))
       (snd (ActOnGotoStmt 2 (label 2 200) None
         (snd (ActOnGotoStmt 1 (label 1 100) None Sema_init)))))"

text \<open>\<^verbatim>\<open>DO 10 I = 1, 5; 10 END PROGRAM\<close>\<close>

definition unit_do_end :: Sema where
  "unit_do_end =
     snd (ActOnENDPROGRAM 2 (Some (label 2 10))
       (snd (ActOnDoStmt 1 (label 1 10) (integer_expr 1) (integer_expr 1) (integer_expr 1)
               None None Sema_init)))"

text \<open>\<^verbatim>\<open>DO 10 I = 1, 5; 10 STOP\<close>\<close>

definition unit_do_stop :: Sema where
  "unit_do_stop =
     snd (ActOnStopStmt 2 None (Some (label 2 10))
       (snd (ActOnDoStmt 1 (label 1 10) (integer_expr 1) (integer_expr 1) (integer_expr 1)
               None None Sema_init)))"

text \<open>\<^verbatim>\<open>IF (L) THEN\<close>, and the same followed by \<^verbatim>\<open>ELSE\<close>\<close>

definition unit_if :: Sema where
  "unit_if = snd (ActOnIfStmt 1 (logical_expr 1) None Sema_init)"

definition unit_if_else :: Sema where
  "unit_if_else = snd (ActOnElseStmt 2 None unit_if)"

text \<open>\<^verbatim>\<open>IF (L) THEN; ELSE; ELSE; END IF\<close>\<close>

definition unit_if_else_else :: Sema where
  "unit_if_else_else = snd (ActOnEndIfStmt 4 None (snd (ActOnElseStmt 3 None unit_if_else)))"

text \<open>\<^verbatim>\<open>IMPLICIT NONE\<close>, and \<^verbatim>\<open>IMPLICIT REAL (K)\<close>\<close>

definition unit_implicit_none :: Sema where
  "unit_implicit_none = snd (ActOnIMPLICIT_NONE 1 None Sema_init)"

definition unit_implicit_real_k :: Sema where
  "unit_implicit_real_k =
     snd (ActOnIMPLICIT 1 (Some (BuiltinType Real)) [(''k'', None)] None Sema_init)"

section \<open>The assignment table of the specification\<close>

text \<open>
  The table of the specification's section on assignment typing, read row by row: for a
  left side and a right side type, \<open>Some None\<close> accepts the right side as it is,
  \<open>Some (Some K)\<close> accepts it under the conversion \<open>K\<close>, and \<open>None\<close> is every
  other combination.
\<close>

definition spec_assignment_table :: "Type \<Rightarrow> Type \<Rightarrow> ConversionKind option option" where
  "spec_assignment_table L R =
     (if L = BuiltinType Integer then
        (if R = BuiltinType Integer then Some None
         else if R \<in> {BuiltinType Real, BuiltinType DoublePrecision, BuiltinType Complex}
           then Some (Some Conv_INT) else None)
      else if L = BuiltinType Real then
        (if R = BuiltinType Real then Some None
         else if R \<in> {BuiltinType Integer, BuiltinType DoublePrecision, BuiltinType Complex}
           then Some (Some Conv_REAL) else None)
      else if L = BuiltinType DoublePrecision then
        (if R = BuiltinType DoublePrecision then Some None
         else if R \<in> {BuiltinType Integer, BuiltinType Real, BuiltinType Complex}
           then Some (Some Conv_DBLE) else None)
      else if L = BuiltinType Complex then
        (if R = BuiltinType Complex then Some None
         else if R \<in> {BuiltinType Integer, BuiltinType Real, BuiltinType DoublePrecision}
           then Some (Some Conv_CMPLX) else None)
      else if L = BuiltinType Logical then
        (if R = BuiltinType Logical then Some None else None)
      else if L = BuiltinType Character then
        (if R = BuiltinType Character then Some None else None)
      else None)"

text \<open>The right side as the table's entry leaves it.\<close>

definition converted :: "ConversionKind option \<Rightarrow> Expr \<Rightarrow> Expr" where
  "converted c RHS =
     (case c of None \<Rightarrow> RHS
      | Some K \<Rightarrow> ConversionExpr (getLocation RHS) (ConversionType K) K RHS)"

section \<open>Theorems\<close>

lemmas type_predicates =
  isIntegerType_def isRealType_def isCharacterType_def
  isDoublePrecisionType_def isLogicalType_def isComplexType_def

subsection \<open>Assignment typing\<close>

lemma BuildAssignment_eq:
  "BuildAssignment LHS RHS Label S =
     (Some (length (Stmts S)),
      DeclareIfLabelled Label (length (Stmts S))
        (S\<lparr>Stmts := Stmts S @ [Stmt_Create Stmt_Assignment NoLoc Label [LHS, RHS]]\<rparr>))"
  by (simp add: BuildAssignment_def Create_def)

lemma type_predicates_eq:
  "isIntegerType T \<longleftrightarrow> T = BuiltinType Integer"
  "isRealType T \<longleftrightarrow> T = BuiltinType Real"
  "isDoublePrecisionType T \<longleftrightarrow> T = BuiltinType DoublePrecision"
  "isComplexType T \<longleftrightarrow> T = BuiltinType Complex"
  "isLogicalType T \<longleftrightarrow> T = BuiltinType Logical"
  "isCharacterType T \<longleftrightarrow> T = BuiltinType Character"
  by (simp_all add: type_predicates split: Type.split)

lemma ActOnAssignmentStmt_builtin:
  "ActOnAssignmentStmt Loc LHS RHS Label S =
     (case spec_assignment_table (getType LHS) (getType RHS) of
        None \<Rightarrow> typeError Loc LHS RHS S
      | Some c \<Rightarrow> BuildAssignment LHS (converted c RHS) Label S)"
  unfolding ActOnAssignmentStmt_def spec_assignment_table_def type_predicates_eq Let_def
  by (auto simp: converted_def ConversionExpr_Create_def)

text \<open>
  C1. For every assignment \<open>LHS = RHS\<close> the action follows the table: where the table
  has no entry for the two types, the action reports \<open>incompatible assignment\<close> at the
  location of the statement with both types as arguments, creates nothing and returns the
  error sentinel; where the table accepts the pair, the action creates one assignment
  statement whose right side is the given one, wrapped in the conversion of the table's
  entry if it has one, and declares the statement's label.
\<close>

theorem ActOnAssignmentStmt_table:
  "ActOnAssignmentStmt Loc LHS RHS Label S =
     (case spec_assignment_table (getType LHS) (getType RHS) of
        None \<Rightarrow>
          (None,
           S\<lparr>Diags := Diags S @
              [err_typecheck_assign_incompatible Loc (getType LHS) (getType RHS)]\<rparr>)
      | Some c \<Rightarrow>
          (Some (length (Stmts S)),
           DeclareIfLabelled Label (length (Stmts S))
             (S\<lparr>Stmts := Stmts S @
                [Stmt_Create Stmt_Assignment NoLoc Label [LHS, converted c RHS]]\<rparr>)))"
  by (simp add: ActOnAssignmentStmt_builtin BuildAssignment_eq typeError_def Report_def
      split: option.split)

theorem ActOnAssignmentStmt_table_witness:
  "ActOnAssignmentStmt 7 (OtherExpr 1 (BuiltinType Integer)) (ConstantExpr 2 (BuiltinType Real))
       None Sema_init =
     (Some 0,
      Sema_init\<lparr>Stmts :=
        [Stmt_Create Stmt_Assignment NoLoc None
          [OtherExpr 1 (BuiltinType Integer),
           ConversionExpr 2 (BuiltinType Integer) Conv_INT (ConstantExpr 2 (BuiltinType Real))]]\<rparr>)
   \<and> ActOnAssignmentStmt 7 (OtherExpr 1 (BuiltinType Real)) (ConstantExpr 2 (BuiltinType Character))
       None Sema_init =
     (None,
      Sema_init\<lparr>Diags :=
        [err_typecheck_assign_incompatible 7 (BuiltinType Real) (BuiltinType Character)]\<rparr>)"
  using ActOnAssignmentStmt_table [of 7 "OtherExpr 1 (BuiltinType Integer)"
      "ConstantExpr 2 (BuiltinType Real)" None Sema_init]
    ActOnAssignmentStmt_table [of 7 "OtherExpr 1 (BuiltinType Real)"
      "ConstantExpr 2 (BuiltinType Character)" None Sema_init]
  by (simp add: spec_assignment_table_def converted_def DeclareIfLabelled_def Sema_init_def)

subsection \<open>Statement labels\<close>

text \<open>
  C6. The labels in scope are a map keyed by the label's integer. Declaring a label whose
  key is already declared reports \<open>redefinition of statement label\<close> and changes nothing
  but the diagnostics, so the label map is the one before; declaring a fresh label
  reports nothing and adds to the map exactly the mapping from the label's key to the
  statement.
\<close>

theorem DeclareStatementLabel_unique:
  "(StmtLabelScope_Resolve S Label = Some Decl \<longrightarrow>
      DeclareStatementLabel Label Result S =
        S\<lparr>Diags := Diags S @ [err_redefinition_of_stmt_label (getLocation Label) Label]\<rparr>
      \<and> StmtLabelDeclsInScope (DeclareStatementLabel Label Result S) = StmtLabelDeclsInScope S)
   \<and> (StmtLabelScope_Resolve S Label = None \<longrightarrow>
      DeclareStatementLabel Label Result S =
        S\<lparr>StmtLabelDeclsInScope :=
          (StmtLabelDeclsInScope S)(GetStmtLabelValue Label \<mapsto> Result)\<rparr>
      \<and> Diags (DeclareStatementLabel Label Result S) = Diags S
      \<and> dom (StmtLabelDeclsInScope (DeclareStatementLabel Label Result S)) =
          insert (GetStmtLabelValue Label) (dom (StmtLabelDeclsInScope S))
      \<and> StmtLabelScope_Resolve (DeclareStatementLabel Label Result S) Label = Some Result)"
  by (simp add: DeclareStatementLabel_def StmtLabelScope_Declare_def StmtLabelScope_Resolve_def Report_def)

theorem DeclareStatementLabel_unique_witness:
  "StmtLabelScope_Resolve Sema_init (IntegerConstantExpr 3 (BuiltinType Integer) 100) = None
   \<and> StmtLabelScope_Resolve (DeclareStatementLabel (IntegerConstantExpr 3 (BuiltinType Integer) 100) 0 Sema_init)
        (IntegerConstantExpr 9 (BuiltinType Integer) 100) = Some 0
   \<and> DeclareStatementLabel (IntegerConstantExpr 9 (BuiltinType Integer) 100) 1
        (DeclareStatementLabel (IntegerConstantExpr 3 (BuiltinType Integer) 100) 0 Sema_init) =
      Sema_init\<lparr>StmtLabelDeclsInScope := [100 \<mapsto> 0],
        Diags := [err_redefinition_of_stmt_label 9 (IntegerConstantExpr 9 (BuiltinType Integer) 100)]\<rparr>"
proof -
  let ?L = "IntegerConstantExpr 3 (BuiltinType Integer) 100"
  let ?L' = "IntegerConstantExpr 9 (BuiltinType Integer) 100"
  have fresh: "StmtLabelScope_Resolve Sema_init ?L = None"
    by (simp add: StmtLabelScope_Resolve_def Sema_init_def)
  have first: "DeclareStatementLabel ?L 0 Sema_init =
      Sema_init\<lparr>StmtLabelDeclsInScope := [100 \<mapsto> 0]\<rparr>"
    using DeclareStatementLabel_unique [of Sema_init ?L undefined 0] fresh
    by (simp add: Sema_init_def StmtLabelInteger_max_def)
  have again: "StmtLabelScope_Resolve (Sema_init\<lparr>StmtLabelDeclsInScope := [100 \<mapsto> 0]\<rparr>) ?L' = Some 0"
    by (simp add: StmtLabelScope_Resolve_def StmtLabelInteger_max_def)
  show ?thesis
    using DeclareStatementLabel_unique
      [of "Sema_init\<lparr>StmtLabelDeclsInScope := [100 \<mapsto> 0]\<rparr>" ?L' 0 1] fresh first again
    by (simp add: Sema_init_def)
qed

subsection \<open>The end of a program unit\<close>

lemma FixForwardDecls_scope [simp]:
  "StmtLabelDeclsInScope (FixForwardDecls Fs S) = StmtLabelDeclsInScope S"
  "IfStmtStack (FixForwardDecls Fs S) = IfStmtStack S"
  "DoStmtList (FixForwardDecls Fs S) = DoStmtList S"
  "ForwardStmtLabelDeclsInScope (FixForwardDecls Fs S) = ForwardStmtLabelDeclsInScope S"
  by (induction Fs arbitrary: S;
      simp add: InvokeResolveCallback_def Report_def setAddress_def setAllowedValue_def
        setDestination_def setTerminatingStmt_def StmtLabelScope_Resolve_def
        split: option.split ResolveCallbackTy.split)+

lemma FixForwardDecls_Resolve [simp]:
  "StmtLabelScope_Resolve (FixForwardDecls Fs S) L = StmtLabelScope_Resolve S L"
  by (simp add: StmtLabelScope_Resolve_def)

lemma Resolve_after_step [simp]:
  "StmtLabelScope_Resolve (InvokeResolveCallback F d S) L = StmtLabelScope_Resolve S L"
  "StmtLabelScope_Resolve (Report D S) L = StmtLabelScope_Resolve S L"
  by (simp_all add: InvokeResolveCallback_def Report_def setAddress_def setAllowedValue_def
        setDestination_def setTerminatingStmt_def StmtLabelScope_Resolve_def
        split: ResolveCallbackTy.split)

lemma FixForwardDecls_append:
  "FixForwardDecls (Fs @ Gs) S = FixForwardDecls Gs (FixForwardDecls Fs S)"
  by (induction Fs arbitrary: S) simp_all

lemma FixForwardDecls_snoc:
  "FixForwardDecls (Fs @ [F]) S =
     (case StmtLabelScope_Resolve S (StmtLabel F) of
        Some Decl \<Rightarrow> InvokeResolveCallback F Decl (FixForwardDecls Fs S)
      | None \<Rightarrow>
          Report (err_undeclared_stmt_label_use (getLocation (StmtLabel F)) (StmtLabel F))
            (FixForwardDecls Fs S))"
  by (simp add: FixForwardDecls_append)

lemma Diags_InvokeResolveCallback [simp]:
  "Diags (InvokeResolveCallback F d S) = Diags S"
  by (simp add: InvokeResolveCallback_def setAddress_def setAllowedValue_def
        setDestination_def setTerminatingStmt_def split: ResolveCallbackTy.split)

lemma FixForwardDecls_Diags:
  "Diags (FixForwardDecls Fs S) =
     Diags S @
     map (\<lambda>F. err_undeclared_stmt_label_use (getLocation (StmtLabel F)) (StmtLabel F))
       (filter (\<lambda>F. StmtLabelScope_Resolve S (StmtLabel F) = None) Fs)"
proof (induction Fs rule: rev_induct)
  case Nil
  show ?case by simp
next
  case (snoc F Fs)
  then show ?case
    by (simp add: FixForwardDecls_snoc Report_def split: option.split)
qed

lemma ReportOpenIfs_eq:
  "ReportOpenIfs Loc Is S =
     S\<lparr>Diags := Diags S @ replicate (length Is) (err_expected_kw Loc ''END IF'')\<rparr>"
  by (induction Is arbitrary: S) (simp_all add: Report_def replicate_app_Cons_same)

lemma CheckDoStmts_Stmts [simp]:
  "Stmts (CheckDoStmts Is S) = Stmts S"
  "ForwardStmtLabelDeclsInScope (CheckDoStmts Is S) = ForwardStmtLabelDeclsInScope S"
  "IfStmtStack (CheckDoStmts Is S) = IfStmtStack S"
  "StmtLabelDeclsInScope (CheckDoStmts Is S) = StmtLabelDeclsInScope S"
  by (induction Is arbitrary: S; simp add: Report_def split: option.split)+

lemma Report_fields [simp]:
  "Stmts (Report D S) = Stmts S"
  "Diags (Report D S) = Diags S @ [D]"
  "IfStmtStack (Report D S) = IfStmtStack S"
  "DoStmtList (Report D S) = DoStmtList S"
  "StmtLabelDeclsInScope (Report D S) = StmtLabelDeclsInScope S"
  "ForwardStmtLabelDeclsInScope (Report D S) = ForwardStmtLabelDeclsInScope S"
  by (simp_all add: Report_def)

lemma CheckDoStmts_Diags:
  "Diags (CheckDoStmts Is S) = Diags S @ concat (map (DoTerminatorReports (Stmts S)) Is)"
  by (induction Is arbitrary: S) (simp_all add: DoTerminatorReports_def split: option.split)

lemma PopExecutableProgramUnit_Diags:
  "Diags (PopExecutableProgramUnit Loc S) =
     Diags S @
     map (\<lambda>F. err_undeclared_stmt_label_use (getLocation (StmtLabel F)) (StmtLabel F))
       (filter (\<lambda>F. StmtLabelScope_Resolve S (StmtLabel F) = None)
          (ForwardStmtLabelDeclsInScope S)) @
     replicate (length (IfStmtStack S)) (err_expected_kw Loc ''END IF'') @
     concat (map (DoTerminatorReports (Stmts (FixForwardDecls (ForwardStmtLabelDeclsInScope S) S)))
               (DoStmtList S))"
  by (simp add: PopExecutableProgramUnit_def Let_def CheckDoStmts_Diags ReportOpenIfs_eq
      StmtLabelScope_reset_def FixForwardDecls_Diags)

lemma PopExecutableProgramUnit_cleared:
  "ForwardStmtLabelDeclsInScope (PopExecutableProgramUnit Loc S) = []"
  "StmtLabelDeclsInScope (PopExecutableProgramUnit Loc S) = Map.empty"
  "IfStmtStack (PopExecutableProgramUnit Loc S) = []"
  "DoStmtList (PopExecutableProgramUnit Loc S) = []"
  "Stmts (PopExecutableProgramUnit Loc S) =
     Stmts (FixForwardDecls (ForwardStmtLabelDeclsInScope S) S)"
  by (simp_all add: PopExecutableProgramUnit_def Let_def ReportOpenIfs_eq StmtLabelScope_reset_def)

lemmas Sema_defs =
  Sema_init_def Create_def Stmt_Create_def Report_def
  StmtLabelScope_Resolve_def StmtLabelScope_Declare_def StmtLabelScope_reset_def
  DeclareForwardReference_def DeclareStatementLabel_def DeclareIfLabelled_def
  StmtLabelInteger_max_def ForwardDecl_def InvokeResolveCallback_def
  setAddress_def setAllowedValue_def setDestination_def setTerminatingStmt_def
  setThenStmt_def setElseStmt_def
  ActOnGotoStmt_def ActOnAssignStmt_def ActOnAssignedGotoStmt_def
  IsLogicalExpression_def ReportExpectedLogical_def
  ActOnIfStmt_def ActOnIfStmt_logical_def ActOnElseIfStmt_def ActOnElseStmt_def
  ActOnEndIfStmt_def ExpectRealOrIntegerOrDoublePrec_def ApplyDoConversionIfNeeded_def
  ActOnDoStmt_def ActOnSimpleStmt_def ActOnContinueStmt_def ActOnStopStmt_def
  ActOnENDPROGRAM_def ActOnIMPLICIT_def ActOnIMPLICIT_NONE_def
  PopExecutableProgramUnit_def IsValidDoTerminatingStatement_def
  DeclSpec_init_def ActOnTypeName_def ActOnEntityDecl_def toupper_def getNameStart0_def
  ActOnImplicitEntityDecl_def type_predicates
  label_def logical_expr_def integer_expr_def

subsection \<open>The terminating statement of a DO\<close>

text \<open>
  What the check does for the statement kinds it handles: one report for a DO whose
  terminating statement is a GOTO, an assigned GOTO, a STOP, a DO, an ELSE, an END IF, or an
  IF statement without a body statement (a block IF or an ELSE IF).
\<close>

lemma DoTerminatorReports_invalid:
  assumes "getTerminatingStmt (Arena ! I) = Some T"
    and "getStatementID (Arena ! T) \<in>
           {Stmt_Goto, Stmt_AssignedGoto, Stmt_Stop, Stmt_Do, Stmt_Else, Stmt_EndIf}
         \<or> getStatementID (Arena ! T) = Stmt_If \<and> getThenStmt (Arena ! T) = None"
  shows "DoTerminatorReports Arena I =
           [err_invalid_do_terminating_stmt (getStmtLocation (Arena ! T))]"
  using assms by (auto simp: DoTerminatorReports_def IsValidDoTerminatingStatement_def)

text \<open>
  C2. A DO whose terminating statement is the END statement of the program gets no report:
  the unit \<^verbatim>\<open>DO 10 I = 1, 5; 10 END PROGRAM\<close> ends without a diagnostic, while the same
  unit terminated by a STOP gets its one report.
\<close>

theorem DO_terminated_by_END_not_reported:
  "getStatementID (Stmts (PopExecutableProgramUnit 3 unit_do_end) ! 0) = Stmt_Do
   \<and> getTerminatingStmt (Stmts (PopExecutableProgramUnit 3 unit_do_end) ! 0) = Some 1
   \<and> getStatementID (Stmts (PopExecutableProgramUnit 3 unit_do_end) ! 1) = Stmt_EndProgram
   \<and> Diags (PopExecutableProgramUnit 3 unit_do_end) = []
   \<and> Diags (PopExecutableProgramUnit 3 unit_do_stop) = [err_invalid_do_terminating_stmt 2]"
  by (simp add: unit_do_end_def unit_do_stop_def Sema_defs)

subsection \<open>Implicitly typed entities\<close>

lemma ActOnImplicitEntityDecl_default:
  "FETokenInfo S IDInfo = None \<Longrightarrow>
   fst (ActOnImplicitEntityDecl IDLoc IDInfo S) =
     Some (VarDecl (CurContext S) IDLoc IDInfo
       (Some (BuiltinType
          (if 73 \<le> toupper (getNameStart0 IDInfo) \<and> toupper (getNameStart0 IDInfo) \<le> 78
           then Integer else Real)))
       LocalVariable None)
   \<and> Diags (snd (ActOnImplicitEntityDecl IDLoc IDInfo S)) = Diags S"
  by (simp add: ActOnImplicitEntityDecl_def ActOnEntityDecl_def ActOnTypeName_def
      DeclSpec_init_def Let_def)

text \<open>
  C3. The action for an undeclared identifier does not look at the IMPLICIT statements:
  after \<^verbatim>\<open>IMPLICIT NONE\<close> the identifier \<open>x\<close> is declared REAL and nothing is
  reported, and after \<^verbatim>\<open>IMPLICIT REAL (K)\<close> the identifier \<open>k\<close> is declared INTEGER.
\<close>

theorem ActOnImplicitEntityDecl_ignores_IMPLICIT:
  "getLetterSpecs (Stmts unit_implicit_none ! 0) = None
   \<and> getStatementID (Stmts unit_implicit_none ! 0) = Stmt_Implicit
   \<and> fst (ActOnImplicitEntityDecl 2 ''x'' unit_implicit_none) =
       Some (VarDecl 0 2 ''x'' (Some (BuiltinType Real)) LocalVariable None)
   \<and> Diags (snd (ActOnImplicitEntityDecl 2 ''x'' unit_implicit_none)) = []
   \<and> getLetterSpecs (Stmts unit_implicit_real_k ! 0) =
       Some (Some (BuiltinType Real), [(''k'', None)])
   \<and> fst (ActOnImplicitEntityDecl 2 ''k'' unit_implicit_real_k) =
       Some (VarDecl 0 2 ''k'' (Some (BuiltinType Integer)) LocalVariable None)"
  by (simp add: unit_implicit_none_def unit_implicit_real_k_def Sema_defs Let_def)

subsection \<open>The IF construct\<close>

lemma DeclareIfLabelled_fields:
  "IfStmtStack (DeclareIfLabelled Label R X) = IfStmtStack X"
  "Stmts (DeclareIfLabelled Label R X) = Stmts X"
  by (simp_all add: DeclareIfLabelled_def DeclareStatementLabel_def StmtLabelScope_Declare_def
      Report_def Let_def split: option.split)

text \<open>
  With no IF open, ELSE and END IF report \<open>stmt not in IF\<close> and return the error
  sentinel, and so does an ELSE IF whose condition is logical; an ELSE IF whose condition
  is not logical reports that first, whatever the stack holds.
\<close>

lemma IfStmtStack_empty:
  assumes "IfStmtStack S = []"
  shows "ActOnElseStmt Loc Label S = (None, Report (err_stmt_not_in_if Loc ''ELSE'') S)"
    and "ActOnEndIfStmt Loc Label S = (None, Report (err_stmt_not_in_if Loc ''END IF'') S)"
    and "IsLogicalExpression Condition \<Longrightarrow>
           ActOnElseIfStmt Loc Condition Label S =
             (None, Report (err_stmt_not_in_if Loc ''ELSE IF'') S)"
  using assms by (simp_all add: ActOnElseStmt_def ActOnEndIfStmt_def ActOnElseIfStmt_def)

lemma ActOnElseIfStmt_condition_first:
  "\<not> IsLogicalExpression Condition \<Longrightarrow>
   ActOnElseIfStmt Loc Condition Label S = (None, ReportExpectedLogical Condition S)"
  by (simp add: ActOnElseIfStmt_def)

text \<open>
  With an IF open and a logical condition, ELSE IF takes the top IF off the stack, sets
  its else branch to the new IF statement and pushes the new one. END IF takes the top IF
  off the stack and creates its statement.
\<close>

lemma ActOnElseIfStmt_links:
  assumes "IfStmtStack S = Stack @ [Top]" and "Top < length (Stmts S)"
    and "IsLogicalExpression Condition"
  shows "fst (ActOnElseIfStmt Loc Condition Label S) = Some (length (Stmts S))"
    and "IfStmtStack (snd (ActOnElseIfStmt Loc Condition Label S)) = Stack @ [length (Stmts S)]"
    and "Stmts (snd (ActOnElseIfStmt Loc Condition Label S)) =
           (Stmts S)[Top := (Stmts S ! Top)\<lparr>getElseStmt := Some (length (Stmts S))\<rparr>]
             @ [Stmt_Create Stmt_If Loc Label [Condition]]"
  using assms
  by (simp_all add: ActOnElseIfStmt_def Create_def DeclareIfLabelled_fields setElseStmt_def
      list_update_append nth_append)

lemma ActOnEndIfStmt_pops:
  assumes "IfStmtStack S = Stack @ [Top]"
  shows "fst (ActOnEndIfStmt Loc Label S) = Some (length (Stmts S))"
    and "IfStmtStack (snd (ActOnEndIfStmt Loc Label S)) = Stack"
    and "Stmts (snd (ActOnEndIfStmt Loc Label S)) =
           Stmts S @ [Stmt_Create Stmt_EndIf Loc Label []]"
  using assms by (simp_all add: ActOnEndIfStmt_def Create_def DeclareIfLabelled_fields)

text \<open>
  At the end of the unit every IF still on the stack gets one report
  \<open>expected END IF\<close>, and the stack is emptied.
\<close>

lemma PopExecutableProgramUnit_open_ifs:
  "IfStmtStack (PopExecutableProgramUnit Loc S) = []"
  "Diags (PopExecutableProgramUnit Loc S) =
     Diags (FixForwardDecls (ForwardStmtLabelDeclsInScope S) S) @
     replicate (length (IfStmtStack S)) (err_expected_kw Loc ''END IF'') @
     concat (map (DoTerminatorReports
                    (Stmts (FixForwardDecls (ForwardStmtLabelDeclsInScope S) S)))
               (DoStmtList S))"
  by (simp_all add: PopExecutableProgramUnit_cleared PopExecutableProgramUnit_Diags
      FixForwardDecls_Diags)

lemma IfStmtStack_examples:
  "IfStmtStack unit_if = [0]"
  "IfStmtStack (snd (ActOnElseIfStmt 2 (logical_expr 2) None unit_if)) = [1]"
  "getElseStmt (Stmts (snd (ActOnElseIfStmt 2 (logical_expr 2) None unit_if)) ! 0) = Some 1"
  "IfStmtStack (snd (ActOnEndIfStmt 2 None unit_if)) = []"
  "ActOnEndIfStmt 2 None Sema_init =
     (None, Sema_init\<lparr>Diags := [err_stmt_not_in_if 2 ''END IF'']\<rparr>)"
  "Diags (PopExecutableProgramUnit 9 unit_if) = [err_expected_kw 9 ''END IF'']"
  "ActOnElseIfStmt 2 (integer_expr 2) None Sema_init =
     (None, Sema_init\<lparr>Diags := [err_typecheck_expected_logical_expr 2 (BuiltinType Integer)]\<rparr>)"
  by (simp_all add: unit_if_def Sema_defs DoTerminatorReports_def)

text \<open>
  C4. ELSE does not link the IF. In \<^verbatim>\<open>IF (L) THEN; ELSE; ELSE; END IF\<close> the first
  ELSE is accepted and creates its statement, but the IF statement stays on the stack
  with no else branch; the second ELSE is accepted in the same way; after END IF and the
  end of the unit nothing has been reported and the IF statement still has no else
  branch.
\<close>

theorem ActOnElseStmt_does_not_link:
  "IfStmtStack unit_if = [0]
   \<and> fst (ActOnElseStmt 2 None unit_if) = Some 1
   \<and> getStatementID (Stmts unit_if_else ! 1) = Stmt_Else
   \<and> IfStmtStack unit_if_else = [0]
   \<and> getElseStmt (Stmts unit_if_else ! 0) = None
   \<and> fst (ActOnElseStmt 3 None unit_if_else) = Some 2
   \<and> IfStmtStack (snd (ActOnElseStmt 3 None unit_if_else)) = [0]
   \<and> IfStmtStack unit_if_else_else = []
   \<and> Diags (PopExecutableProgramUnit 9 unit_if_else_else) = []
   \<and> getElseStmt (Stmts (PopExecutableProgramUnit 9 unit_if_else_else) ! 0) = None"
  by (simp add: unit_if_else_else_def unit_if_else_def unit_if_def Sema_defs)

subsection \<open>64-bit arithmetic\<close>

lemma sint_bounds: "- (2 ^ 63) \<le> sint (a :: 64 word)" "sint (a :: 64 word) < 2 ^ 63"
  using sint_ge [of a] sint_lt [of a] by simp_all

lemma pow64: "(0 :: int) < 2 ^ 63" "(2 :: int) ^ 64 = 2 * 2 ^ 63" "(1 :: int) < 2 ^ 63"
  by simp_all

lemma stb64: "signed_take_bit 63 (k :: int) = (k + 2 ^ 63) mod 2 ^ 64 - 2 ^ 63"
  by (simp add: signed_take_bit_eq_take_bit_shift take_bit_eq_mod)

lemma mod_window:
  fixes x m :: int
  assumes "0 < m"
  shows "0 \<le> x \<Longrightarrow> x < m \<Longrightarrow> x mod m = x"
    and "m \<le> x \<Longrightarrow> x < 2 * m \<Longrightarrow> x mod m = x - m"
    and "- m \<le> x \<Longrightarrow> x < 0 \<Longrightarrow> x mod m = x + m"
proof -
  show "0 \<le> x \<Longrightarrow> x < m \<Longrightarrow> x mod m = x" by simp
  show "x mod m = x - m" if "m \<le> x" "x < 2 * m"
  proof -
    have "x mod m = (x - m) mod m" by simp
    also have "\<dots> = x - m" using that by (intro mod_pos_pos_trivial) simp_all
    finally show ?thesis .
  qed
  show "x mod m = x + m" if "- m \<le> x" "x < 0"
  proof -
    have "x mod m = (x + m) mod m" by simp
    also have "\<dots> = x + m" using that by (intro mod_pos_pos_trivial) simp_all
    finally show ?thesis .
  qed
qed

lemma stb64_self: "- (2 ^ 63) \<le> k \<Longrightarrow> k < 2 ^ 63 \<Longrightarrow> signed_take_bit 63 (k :: int) = k"
  by (rule signed_take_bit_int_eq_self) simp_all

lemma stb64_high:
  assumes "2 ^ 63 \<le> k" "k < 2 ^ 64 + 2 ^ 63"
  shows "signed_take_bit 63 (k :: int) = k - 2 ^ 64"
  using assms mod_window(2) [of "2 ^ 64" "k + 2 ^ 63"] by (simp add: stb64)

lemma stb64_low:
  assumes "- (2 ^ 64) - 2 ^ 63 \<le> k" "k < - (2 ^ 63)"
  shows "signed_take_bit 63 (k :: int) = k + 2 ^ 64"
  using assms mod_window(3) [of "2 ^ 64" "k + 2 ^ 63"] by (simp add: stb64)

text \<open>A sum or difference of two 64-bit values wraps by at most one turn.\<close>

lemma stb64_wrap:
  fixes k :: int
  assumes "- (2 ^ 64) \<le> k" "k < 2 ^ 64"
  shows "(k < - (2 ^ 63) \<longrightarrow> signed_take_bit 63 k = k + 2 ^ 64)
       \<and> (- (2 ^ 63) \<le> k \<and> k < 2 ^ 63 \<longrightarrow> signed_take_bit 63 k = k)
       \<and> (2 ^ 63 \<le> k \<longrightarrow> signed_take_bit 63 k = k - 2 ^ 64)"
proof (intro conjI impI)
  assume "k < - (2 ^ 63)"
  with assms show "signed_take_bit 63 k = k + 2 ^ 64" by (intro stb64_low) simp_all
next
  assume "- (2 ^ 63) \<le> k \<and> k < 2 ^ 63"
  then show "signed_take_bit 63 k = k" by (intro stb64_self) simp_all
next
  assume "2 ^ 63 \<le> k"
  with assms show "signed_take_bit 63 k = k - 2 ^ 64" by (intro stb64_high) simp_all
qed

lemma overflow_flag_add:
  fixes A B R M :: int
  assumes "- M \<le> A" "A < M" "- M \<le> B" "B < M"
    and "(A + B < - M \<longrightarrow> R = A + B + 2 * M)
       \<and> (- M \<le> A + B \<and> A + B < M \<longrightarrow> R = A + B)
       \<and> (M \<le> A + B \<longrightarrow> R = A + B - 2 * M)"
  shows "((\<not> A < 0) = (\<not> B < 0) \<and> (\<not> R < 0) \<noteq> (\<not> A < 0))
       \<longleftrightarrow> \<not> (- M \<le> A + B \<and> A + B < M)"
proof -
  consider "A + B < - M" | "- M \<le> A + B \<and> A + B < M" | "M \<le> A + B"
    by linarith
  then show ?thesis
  proof cases
    case 1
    with assms have "R = A + B + 2 * M" by blast
    with 1 assms(1-4) show ?thesis by auto
  next
    case 2
    with assms have "R = A + B" by blast
    with 2 assms(1-4) show ?thesis by auto
  next
    case 3
    with assms have "R = A + B - 2 * M" by blast
    with 3 assms(1-4) show ?thesis by auto
  qed
qed

lemma overflow_flag_sub:
  fixes A B R M :: int
  assumes "- M \<le> A" "A < M" "- M \<le> B" "B < M"
    and "(A - B < - M \<longrightarrow> R = A - B + 2 * M)
       \<and> (- M \<le> A - B \<and> A - B < M \<longrightarrow> R = A - B)
       \<and> (M \<le> A - B \<longrightarrow> R = A - B - 2 * M)"
  shows "((\<not> A < 0) \<noteq> (\<not> B < 0) \<and> (\<not> R < 0) \<noteq> (\<not> A < 0))
       \<longleftrightarrow> \<not> (- M \<le> A - B \<and> A - B < M)"
proof -
  consider "A - B < - M" | "- M \<le> A - B \<and> A - B < M" | "M \<le> A - B"
    by linarith
  then show ?thesis
  proof cases
    case 1
    with assms have "R = A - B + 2 * M" by blast
    with 1 assms(1-4) show ?thesis by auto
  next
    case 2
    with assms have "R = A - B" by blast
    with 2 assms(1-4) show ?thesis by auto
  next
    case 3
    with assms have "R = A - B - 2 * M" by blast
    with 3 assms(1-4) show ?thesis by auto
  qed
qed

lemma sadd_ov_spec:
  "sadd_ov a b = (a + b, \<not> in_int64 (sint a + sint b))"
proof -
  have s: "sint (a + b) = signed_take_bit 63 (sint a + sint b)"
    by (simp add: sint_word_add)
  have w: "- (2 ^ 64) \<le> sint a + sint b" "sint a + sint b < 2 ^ 64"
    using sint_bounds [of a] sint_bounds [of b] by simp_all
  show ?thesis
    unfolding sadd_ov_def isNonNegative_def isNegative_def in_int64_def Let_def s
    using overflow_flag_add [of "2 ^ 63" "sint a" "sint b" "signed_take_bit 63 (sint a + sint b)"]
      sint_bounds [of a] sint_bounds [of b] stb64_wrap [OF w]
    by simp
qed

lemma ssub_ov_spec:
  "ssub_ov a b = (a - b, \<not> in_int64 (sint a - sint b))"
proof -
  have s: "sint (a - b) = signed_take_bit 63 (sint a - sint b)"
    by (simp add: sint_word_diff)
  have w: "- (2 ^ 64) \<le> sint a - sint b" "sint a - sint b < 2 ^ 64"
    using sint_bounds [of a] sint_bounds [of b] by simp_all
  show ?thesis
    unfolding ssub_ov_def isNonNegative_def isNegative_def in_int64_def Let_def s
    using overflow_flag_sub [of "2 ^ 63" "sint a" "sint b" "signed_take_bit 63 (sint a - sint b)"]
      sint_bounds [of a] sint_bounds [of b] stb64_wrap [OF w]
    by simp
qed


lemma of_int_sint64 [simp]: "word_of_int (sint (a :: 64 word)) = a"
  by simp

lemma sint_uint_cases:
  fixes a :: "64 word"
  shows "sint a = (if uint a < 2 ^ 63 then uint a else uint a - 2 ^ 64)"
proof -
  have u: "0 \<le> uint a" "uint a < 2 ^ 64"
    using uint_bounded [of a] by simp_all
  have s: "sint a = signed_take_bit 63 (uint a)" by (simp add: sint_uint)
  show ?thesis
  proof (cases "uint a < 2 ^ 63")
    case True
    have "signed_take_bit 63 (uint a) = uint a"
      using u True pow64 by (intro stb64_self) linarith+
    with True show ?thesis by (simp only: s if_True)
  next
    case False
    have "signed_take_bit 63 (uint a) = uint a - 2 ^ 64"
      using u False pow64 by (intro stb64_high) linarith+
    with False show ?thesis by (simp only: s if_False)
  qed
qed

lemma IsProperSignedInt_True [simp]: "IsProperSignedInt a"
proof -
  have u: "0 \<le> uint a" "uint a < 2 ^ 64"
    using uint_bounded [of a] by simp_all
  have "unat a \<le> 2 ^ 63 - 1" if "0 \<le> sint a"
  proof -
    have "uint a < 2 ^ 63"
    proof (rule ccontr)
      assume "\<not> uint a < 2 ^ 63"
      then have "sint a = uint a - 2 ^ 64" by (simp only: sint_uint_cases if_False)
      with u that show False by linarith
    qed
    then have "int (unat a) < 2 ^ 63" by (simp only: uint_nat)
    moreover have "int (2 ^ 63) = 2 ^ 63" by simp
    ultimately show ?thesis by linarith
  qed
  then show ?thesis
    using sint_bounds [of a]
    by (auto simp only: IsProperSignedInt_def isNonNegative_def isNegative_def not_less split: if_split)
qed

lemma sint_eq_0_iff [simp]: "sint (a :: 64 word) = 0 \<longleftrightarrow> a = 0"
proof
  assume "sint a = 0"
  then have "word_of_int (sint a) = (0 :: 64 word)" by simp
  then show "a = 0" by simp
qed simp

lemma uint_magnitude:
  "uint (if sint a < 0 then - a else a) = \<bar>sint (a :: 64 word)\<bar>"
proof -
  have u: "0 \<le> uint a" "uint a < 2 ^ 64"
    using uint_bounded [of a] by simp_all
  show ?thesis
  proof (cases "uint a < 2 ^ 63")
    case True
    then have n: "sint a = uint a" by (simp only: sint_uint_cases if_True)
    with u have "\<not> sint a < 0" "\<bar>sint a\<bar> = uint a" by linarith+
    then show ?thesis by (simp only: if_False)
  next
    case False
    then have n: "sint a = uint a - 2 ^ 64" by (simp only: sint_uint_cases if_False)
    have "uint (- a) = (- uint a) mod 2 ^ 64" by (simp add: uint_word_ariths)
    also have "\<dots> = - uint a + 2 ^ 64"
      using u False pow64 by (intro mod_window(3)) linarith+
    finally have m: "uint (- a) = - uint a + 2 ^ 64" .
    from n u have "sint a < 0" "\<bar>sint a\<bar> = - uint a + 2 ^ 64" by linarith+
    with m show ?thesis by (simp only: if_True)
  qed
qed

lemma word_of_magnitude:
  "(if sint a < 0 then - a else a) = word_of_int \<bar>sint (a :: 64 word)\<bar>"
  unfolding uint_magnitude [symmetric] by (simp only: word_of_int_uint)


lemma magnitude_div:
  fixes a b :: "64 word"
  shows "(if sint a < 0 then - a else a) div (if sint b < 0 then - b else b) =
         word_of_int (\<bar>sint a\<bar> div \<bar>sint b\<bar>)"
proof -
  have "uint ((if sint a < 0 then - a else a) div (if sint b < 0 then - b else b)) =
        \<bar>sint a\<bar> div \<bar>sint b\<bar>"
    by (simp only: uint_div uint_magnitude)
  then show ?thesis by (metis word_of_int_uint)
qed

lemma tquot_signs:
  "A < 0 \<Longrightarrow> B < 0 \<Longrightarrow> tquot A B = \<bar>A\<bar> div \<bar>B\<bar>"
  "A < 0 \<Longrightarrow> \<not> B < 0 \<Longrightarrow> tquot A B = - (\<bar>A\<bar> div \<bar>B\<bar>)"
  "\<not> A < 0 \<Longrightarrow> B < 0 \<Longrightarrow> tquot A B = - (\<bar>A\<bar> div \<bar>B\<bar>)"
  "\<not> A < 0 \<Longrightarrow> \<not> B < 0 \<Longrightarrow> tquot A B = \<bar>A\<bar> div \<bar>B\<bar>"
proof -
  show "A < 0 \<Longrightarrow> B < 0 \<Longrightarrow> tquot A B = \<bar>A\<bar> div \<bar>B\<bar>"
    by (simp add: tquot_def)
  show "tquot A B = - (\<bar>A\<bar> div \<bar>B\<bar>)" if "A < 0" "\<not> B < 0"
  proof (cases "B = 0")
    case True
    then show ?thesis by (simp add: tquot_def)
  next
    case False
    with that have "sgn A = - 1" "sgn B = 1" by simp_all
    then show ?thesis by (simp add: tquot_def)
  qed
  show "tquot A B = - (\<bar>A\<bar> div \<bar>B\<bar>)" if "\<not> A < 0" "B < 0"
  proof (cases "A = 0")
    case True
    then show ?thesis by (simp add: tquot_def)
  next
    case False
    with that have "sgn A = 1" "sgn B = - 1" by simp_all
    then show ?thesis by (simp add: tquot_def)
  qed
  show "tquot A B = \<bar>A\<bar> div \<bar>B\<bar>" if "\<not> A < 0" "\<not> B < 0"
  proof (cases "A = 0 \<or> B = 0")
    case True
    then show ?thesis by (auto simp: tquot_def)
  next
    case False
    with that have "sgn A = 1" "sgn B = 1" by simp_all
    then show ?thesis by (simp add: tquot_def)
  qed
qed

lemma APInt_sdiv_eq:
  "APInt_sdiv a b = word_of_int (tquot (sint a) (sint b))"
proof -
  let ?q = "\<bar>sint a\<bar> div \<bar>sint b\<bar>"
  consider (nn) "sint a < 0" "sint b < 0" | (np) "sint a < 0" "\<not> sint b < 0"
    | (pn) "\<not> sint a < 0" "sint b < 0" | (pp) "\<not> sint a < 0" "\<not> sint b < 0"
    by blast
  then show ?thesis
  proof cases
    case nn
    then have "APInt_sdiv a b = (- a) div (- b)"
      by (simp only: APInt_sdiv_def isNegative_def if_True)
    also have "\<dots> = word_of_int ?q"
      using magnitude_div [of a b] nn by (simp only: if_True)
    finally show ?thesis using tquot_signs(1) [of "sint a" "sint b"] nn by simp
  next
    case np
    then have "APInt_sdiv a b = - ((- a) div b)"
      by (simp only: APInt_sdiv_def isNegative_def if_True if_False)
    also have "(- a) div b = word_of_int ?q"
      using magnitude_div [of a b] np by (simp only: if_True if_False)
    finally show ?thesis using tquot_signs(2) [of "sint a" "sint b"] np by simp
  next
    case pn
    then have "APInt_sdiv a b = - (a div (- b))"
      by (simp only: APInt_sdiv_def isNegative_def if_True if_False)
    also have "a div (- b) = word_of_int ?q"
      using magnitude_div [of a b] pn by (simp only: if_True if_False)
    finally show ?thesis using tquot_signs(3) [of "sint a" "sint b"] pn by simp
  next
    case pp
    then have "APInt_sdiv a b = a div b"
      by (simp only: APInt_sdiv_def isNegative_def if_False)
    also have "\<dots> = word_of_int ?q"
      using magnitude_div [of a b] pp by (simp only: if_False)
    finally show ?thesis using tquot_signs(4) [of "sint a" "sint b"] pp by simp
  qed
qed

lemma tquot_mult_self:
  assumes "B \<noteq> 0"
  shows "tquot (A * B) B = A"
proof -
  have "tquot (A * B) B = sgn A * (sgn B * sgn B) * \<bar>A\<bar>"
    using assms by (simp add: tquot_def sgn_mult abs_mult)
  also have "sgn B * sgn B = 1"
    using assms by (simp add: sgn_if)
  also have "sgn A * 1 * \<bar>A\<bar> = A"
    by (simp add: sgn_if)
  finally show ?thesis .
qed

lemma tquot_remainder:
  assumes "B \<noteq> 0"
  shows "\<bar>R - tquot R B * B\<bar> < \<bar>B\<bar>"
proof -
  have m: "0 \<le> \<bar>R\<bar> mod \<bar>B\<bar>" "\<bar>R\<bar> mod \<bar>B\<bar> < \<bar>B\<bar>"
    using assms by simp_all
  have d: "\<bar>R\<bar> div \<bar>B\<bar> * \<bar>B\<bar> = \<bar>R\<bar> - \<bar>R\<bar> mod \<bar>B\<bar>"
    by (simp add: minus_mod_eq_div_mult)
  have "tquot R B * B = sgn R * (\<bar>R\<bar> div \<bar>B\<bar> * \<bar>B\<bar>)"
    using assms by (simp add: tquot_def sgn_if abs_if)
  then have e: "tquot R B * B = sgn R * (\<bar>R\<bar> - \<bar>R\<bar> mod \<bar>B\<bar>)"
    by (simp only: d)
  show ?thesis
  proof (cases "R < 0")
    case True
    then have "tquot R B * B = R + \<bar>R\<bar> mod \<bar>B\<bar>"
      unfolding e by (simp add: sgn_if)
    with m show ?thesis by linarith
  next
    case False
    then have "tquot R B * B = R - \<bar>R\<bar> mod \<bar>B\<bar>"
      unfolding e by (cases "R = 0") (simp_all add: sgn_if)
    with m show ?thesis by linarith
  qed
qed

lemma stb64_dvd: "2 ^ 64 dvd (signed_take_bit 63 (k :: int) - k)"
proof -
  have "signed_take_bit 63 k - k = - ((k + 2 ^ 63) - (k + 2 ^ 63) mod 2 ^ 64)"
    unfolding stb64 by linarith
  then show ?thesis
    by (simp only: dvd_minus_iff dvd_minus_mod)
qed


lemma tquot_abs: "\<bar>tquot R B\<bar> = \<bar>R\<bar> div \<bar>B\<bar> \<or> tquot R B = 0"
proof -
  have "0 \<le> \<bar>R\<bar> div \<bar>B\<bar>" by (simp add: div_int_pos_iff)
  then show ?thesis
    by (cases "R = 0"; cases "B = 0") (simp_all add: tquot_def abs_mult)
qed

text \<open>A quotient of a 64-bit value reaches \<open>2 ^ 63\<close> only for the least value over \<open>- 1\<close>.\<close>

lemma tquot_max:
  assumes "- (2 ^ 63) \<le> R" "R < 2 ^ 63" "tquot R B = 2 ^ 63"
  shows "B = - 1"
proof -
  have q: "\<bar>R\<bar> div \<bar>B\<bar> = 2 ^ 63"
    using tquot_abs [of R B] assms(3) pow64 by auto
  have r: "\<bar>R\<bar> \<le> 2 ^ 63" using assms(1,2) by linarith
  have b0: "B \<noteq> 0" using q pow64 by auto
  have b1: "\<bar>B\<bar> = 1"
  proof (rule ccontr)
    assume "\<bar>B\<bar> \<noteq> 1"
    with b0 have "2 \<le> \<bar>B\<bar>" by linarith
    then have "\<bar>R\<bar> div \<bar>B\<bar> * 2 \<le> \<bar>R\<bar> div \<bar>B\<bar> * \<bar>B\<bar>"
      by (intro mult_left_mono) (simp_all add: pos_imp_zdiv_nonneg_iff)
    also have "\<dots> = \<bar>R\<bar> - \<bar>R\<bar> mod \<bar>B\<bar>"
      by (simp add: minus_mod_eq_div_mult)
    also have "\<dots> \<le> \<bar>R\<bar>"
      using b0 by simp
    finally show False using q r pow64 by linarith
  qed
  with q have "\<bar>R\<bar> = 2 ^ 63" by simp
  with assms(2) have rneg: "R < 0" using pow64 by linarith
  show ?thesis
  proof (rule ccontr)
    assume "B \<noteq> - 1"
    with b1 have "B = 1" by linarith
    with rneg have "tquot R B < 0 \<or> tquot R B = 0"
      using tquot_signs(2) [of R B] by simp
    with assms(3) pow64 show False by linarith
  qed
qed


lemma abs_div_le:
  fixes R B :: int
  assumes "B \<noteq> 0"
  shows "\<bar>R\<bar> div \<bar>B\<bar> \<le> \<bar>R\<bar>"
proof -
  have "1 \<le> \<bar>B\<bar>" using assms by linarith
  then have "\<bar>R\<bar> div \<bar>B\<bar> * 1 \<le> \<bar>R\<bar> div \<bar>B\<bar> * \<bar>B\<bar>"
    by (intro mult_left_mono) (simp_all add: pos_imp_zdiv_nonneg_iff)
  also have "\<dots> = \<bar>R\<bar> - \<bar>R\<bar> mod \<bar>B\<bar>"
    by (simp add: minus_mod_eq_div_mult)
  also have "\<dots> \<le> \<bar>R\<bar>"
    using assms by simp
  finally show ?thesis by simp
qed

text \<open>
  Dividing the wrapped product back: when the quotient by one factor is the other factor,
  the product did not wrap.
\<close>

lemma div_back_exact:
  fixes a :: "64 word" and R B :: int
  assumes R: "- (2 ^ 63) \<le> R" "R < 2 ^ 63"
    and B: "B \<noteq> 0" "- (2 ^ 63) \<le> B" "B < 2 ^ 63"
    and e: "word_of_int (tquot R B) = a"
    and nm: "tquot R B \<noteq> 2 ^ 63"
    and d: "2 ^ 64 dvd R - sint a * B"
  shows "R = sint a * B"
proof -
  let ?Q = "tquot R B"
  have "\<bar>R\<bar> div \<bar>B\<bar> \<le> \<bar>R\<bar>"
    using B(1) by (rule abs_div_le)
  with tquot_abs [of R B] have "\<bar>?Q\<bar> \<le> \<bar>R\<bar>" by auto
  with R nm have q: "- (2 ^ 63) \<le> ?Q" "?Q < 2 ^ 63" by linarith+
  have "sint a = signed_take_bit 63 ?Q"
    unfolding e [symmetric] by (simp add: sint_sbintrunc')
  also have "\<dots> = ?Q" using q by (rule stb64_self)
  finally have a: "sint a = ?Q" .
  have "\<bar>R - ?Q * B\<bar> < \<bar>B\<bar>" using B(1) by (rule tquot_remainder)
  with B(2,3) have small: "\<bar>R - sint a * B\<bar> < 2 ^ 64"
    unfolding a using pow64 by linarith
  show ?thesis
  proof (rule ccontr)
    assume "R \<noteq> sint a * B"
    then have "R - sint a * B \<noteq> 0" by simp
    from dvd_imp_le_int [OF this d] have "2 ^ 64 \<le> \<bar>R - sint a * B\<bar>" by simp
    with small show False by linarith
  qed
qed

lemma smul_ov_spec:
  "smul_ov a b = (a * b, \<not> in_int64 (sint a * sint b))"
proof (cases "a = 0 \<or> b = 0")
  case True
  then have "sint a * sint b = 0" by auto
  with True show ?thesis by (auto simp: smul_ov_def in_int64_def)
next
  case False
  then have nz: "sint a \<noteq> 0" "sint b \<noteq> 0" by simp_all
  let ?R = "sint (a * b)"
  have R: "?R = signed_take_bit 63 (sint a * sint b)"
    by (simp add: sint_word_mult)
  have flag: "(APInt_sdiv (a * b) b \<noteq> a \<or> APInt_sdiv (a * b) a \<noteq> b)
      \<longleftrightarrow> \<not> in_int64 (sint a * sint b)"
  proof (cases "in_int64 (sint a * sint b)")
    case True
    then have "?R = sint a * sint b"
      unfolding R in_int64_def by (intro stb64_self) simp_all
    then have "APInt_sdiv (a * b) b = a" "APInt_sdiv (a * b) a = b"
      using nz tquot_mult_self [of "sint b" "sint a"] tquot_mult_self [of "sint a" "sint b"]
      by (simp_all add: APInt_sdiv_eq mult.commute)
    with True show ?thesis by simp
  next
    case out: False
    have "\<not> (APInt_sdiv (a * b) b = a \<and> APInt_sdiv (a * b) a = b)"
    proof
      assume "APInt_sdiv (a * b) b = a \<and> APInt_sdiv (a * b) a = b"
      then have e: "word_of_int (tquot ?R (sint b)) = a"
        "word_of_int (tquot ?R (sint a)) = b"
        by (simp_all add: APInt_sdiv_eq)
      have d: "2 ^ 64 dvd ?R - sint a * sint b" "2 ^ 64 dvd ?R - sint b * sint a"
        using stb64_dvd [of "sint a * sint b"] by (simp_all add: R mult.commute)
      have inR: "in_int64 ?R"
        using sint_bounds [of "a * b"] by (simp add: in_int64_def)
      consider "tquot ?R (sint b) \<noteq> 2 ^ 63" | "tquot ?R (sint a) \<noteq> 2 ^ 63"
        | "tquot ?R (sint b) = 2 ^ 63" "tquot ?R (sint a) = 2 ^ 63"
        by blast
      then show False
      proof cases
        case 1
        have "?R = sint a * sint b"
          using sint_bounds [of "a * b"] nz(2) sint_bounds [of b] e(1) 1 d(1)
          by (rule div_back_exact)
        with inR out show False by simp
      next
        case 2
        have "?R = sint b * sint a"
          using sint_bounds [of "a * b"] nz(1) sint_bounds [of a] e(2) 2 d(2)
          by (rule div_back_exact)
        with inR out show False by (simp add: mult.commute)
      next
        case 3
        then have "sint b = - 1" "sint a = - 1"
          using sint_bounds [of "a * b"] tquot_max by blast+
        with out show False by (simp add: in_int64_def)
      qed
    qed
    with out show ?thesis by blast
  qed
  show ?thesis
    using False flag by (simp add: smul_ov_def)
qed

lemma sdiv_ov_spec:
  "sdiv_ov a b =
     (word_of_int (tquot (sint a) (sint b)), \<not> in_int64 (tquot (sint a) (sint b)))"
proof -
  let ?Q = "tquot (sint a) (sint b)"
  have "isMinSignedValue a \<and> isAllOnesValue b \<longleftrightarrow> \<not> in_int64 ?Q"
  proof
    assume "isMinSignedValue a \<and> isAllOnesValue b"
    then have "a = word_of_int (- (2 ^ 63))" "b = - 1"
      by (simp_all add: isMinSignedValue_def isAllOnesValue_def)
    then have "sint a = - (2 ^ 63)" "sint b = - 1"
      by (simp_all add: sint_sbintrunc')
    then have "?Q = 2 ^ 63" by (simp add: tquot_def)
    then show "\<not> in_int64 ?Q" by (simp add: in_int64_def)
  next
    assume out: "\<not> in_int64 ?Q"
    then have b0: "sint b \<noteq> 0" by (auto simp: tquot_def in_int64_def)
    have "\<bar>?Q\<bar> \<le> \<bar>sint a\<bar>"
      using tquot_abs [of "sint a" "sint b"] abs_div_le [OF b0, of "sint a"] by auto
    with out sint_bounds [of a] have q: "?Q = 2 ^ 63"
      unfolding in_int64_def by linarith
    with sint_bounds [of a] have b: "sint b = - 1" by (intro tquot_max [of "sint a"])
    with q have "sint a = - (2 ^ 63)" by (simp add: tquot_def sgn_if split: if_splits)
    then have "word_of_int (sint a) = (word_of_int (- (2 ^ 63)) :: 64 word)" by simp
    moreover from b have "word_of_int (sint b) = (word_of_int (- 1) :: 64 word)" by simp
    ultimately show "isMinSignedValue a \<and> isAllOnesValue b"
      by (simp add: isMinSignedValue_def isAllOnesValue_def)
  qed
  then show ?thesis by (simp add: sdiv_ov_def APInt_sdiv_eq)
qed

subsection \<open>The power loop\<close>

lemma Power_loop_spec:
  "Power_loop N r s =
     (if \<forall>k \<in> {1..N}. in_int64 (sint s * sint r ^ k)
      then Some (word_of_int (sint s * sint r ^ N)) else None)"
proof (induction N arbitrary: s)
  case 0
  show ?case by simp
next
  case (Suc N)
  show ?case
  proof (cases "in_int64 (sint s * sint r)")
    case False
    then have "\<not> (\<forall>k \<in> {1..Suc N}. in_int64 (sint s * sint r ^ k))"
      by (auto intro: bexI [of _ 1])
    with False show ?thesis by (simp add: smul_ov_spec)
  next
    case True
    have "sint (s * r) = signed_take_bit 63 (sint s * sint r)"
      by (simp add: sint_word_mult)
    also have "\<dots> = sint s * sint r"
      using True unfolding in_int64_def by (intro stb64_self) simp_all
    finally have v: "sint (s * r) = sint s * sint r" .
    have "(\<forall>k \<in> {1..Suc N}. in_int64 (sint s * sint r ^ k)) \<longleftrightarrow>
          (\<forall>k \<in> {1..N}. in_int64 (sint s * sint r * sint r ^ k))"
    proof
      assume h: "\<forall>k \<in> {1..Suc N}. in_int64 (sint s * sint r ^ k)"
      show "\<forall>k \<in> {1..N}. in_int64 (sint s * sint r * sint r ^ k)"
      proof
        fix k assume "k \<in> {1..N}"
        then have "Suc k \<in> {1..Suc N}" by simp
        with h have "in_int64 (sint s * sint r ^ Suc k)" by blast
        then show "in_int64 (sint s * sint r * sint r ^ k)" by (simp add: mult.assoc)
      qed
    next
      assume h: "\<forall>k \<in> {1..N}. in_int64 (sint s * sint r * sint r ^ k)"
      show "\<forall>k \<in> {1..Suc N}. in_int64 (sint s * sint r ^ k)"
      proof
        fix k assume k: "k \<in> {1..Suc N}"
        then obtain j where j: "k = Suc j" by (cases k) auto
        show "in_int64 (sint s * sint r ^ k)"
        proof (cases "j = 0")
          case True
          with j \<open>in_int64 (sint s * sint r)\<close> show ?thesis by simp
        next
          case False
          with k j have "j \<in> {1..N}" by simp
          with h have "in_int64 (sint s * sint r * sint r ^ j)" by blast
          with j show ?thesis by (simp add: mult.assoc)
        qed
      qed
    qed
    with True show ?thesis
      by (simp add: smul_ov_spec Suc.IH v mult.assoc)
  qed
qed

lemma power_in_range_prefix:
  fixes R :: int
  assumes "in_int64 (R ^ N)" "k \<le> N"
  shows "in_int64 (R ^ k)"
proof (cases "k = N")
  case True
  with assms show ?thesis by simp
next
  case False
  with assms have lt: "k < N" by simp
  show ?thesis
  proof (cases "\<bar>R\<bar> \<le> 1")
    case True
    then have "\<bar>R ^ k\<bar> \<le> 1" by (simp add: power_abs power_le_one)
    then show ?thesis unfolding in_int64_def using pow64 by linarith
  next
    case False
    then have two: "2 \<le> \<bar>R\<bar>" by linarith
    have "\<bar>R\<bar> ^ 1 \<le> \<bar>R\<bar> ^ (N - k)"
      using two lt by (intro power_increasing) simp_all
    with two have "2 \<le> \<bar>R\<bar> ^ (N - k)" by simp
    then have "\<bar>R ^ k\<bar> * 2 \<le> \<bar>R ^ k\<bar> * \<bar>R\<bar> ^ (N - k)"
      by (intro mult_left_mono) simp_all
    also have "\<dots> = \<bar>R ^ N\<bar>"
      using lt by (simp add: power_abs flip: power_add)
    also have "\<dots> \<le> 2 ^ 63"
      using assms(1) unfolding in_int64_def by linarith
    finally show ?thesis unfolding in_int64_def using pow64 by linarith
  qed
qed

lemma Power_loop_one:
  "Power_loop N r 1 = (if in_int64 (sint r ^ N) then Some (word_of_int (sint r ^ N)) else None)"
proof -
  have "(\<forall>k \<in> {1..N}. in_int64 (sint r ^ k)) \<longleftrightarrow> in_int64 (sint r ^ N)"
  proof (cases "N = 0")
    case True
    then show ?thesis by (simp add: in_int64_def)
  next
    case False
    then show ?thesis
      using power_in_range_prefix [of "sint r" N] by auto
  qed
  then show ?thesis by (simp add: Power_loop_spec)
qed


subsection \<open>The binary operators of the evaluator\<close>

lemma unat_nonnegative:
  fixes b :: "64 word"
  assumes "\<not> sint b < 0"
  shows "unat b = nat (sint b)"
proof -
  have u: "0 \<le> uint b" "uint b < 2 ^ 64"
    using uint_bounded [of b] by simp_all
  have "uint b < 2 ^ 63"
  proof (rule ccontr)
    assume "\<not> uint b < 2 ^ 63"
    then have "sint b = uint b - 2 ^ 64" by (simp only: sint_uint_cases if_False)
    with u assms show False by linarith
  qed
  then have "sint b = uint b" by (simp only: sint_uint_cases if_True)
  then show ?thesis by (simp only: unat_eq_nat_uint)
qed

lemma CheckResult_spec:
  "CheckResult (w, ov) = (if ov then Failure else Success w)"
  by (simp add: CheckResult_def)

lemma BinaryOperation_spec:
  assumes "Op = BO_Divide \<longrightarrow> b \<noteq> 0"
  shows "BinaryOperation Op a b = folds_or_fails (spec_binary Op (sint a) (sint b))"
proof (cases Op)
  case BO_Plus
  then show ?thesis
    by (simp add: BinaryOperation_def spec_binary_def sadd_ov_spec CheckResult_spec checked_def
        folds_or_fails_def)
next
  case BO_Minus
  then show ?thesis
    by (simp add: BinaryOperation_def spec_binary_def ssub_ov_spec CheckResult_spec checked_def
        folds_or_fails_def)
next
  case BO_Multiply
  then show ?thesis
    by (simp add: BinaryOperation_def spec_binary_def smul_ov_spec CheckResult_spec checked_def
        folds_or_fails_def)
next
  case BO_Divide
  with assms show ?thesis
    by (simp add: BinaryOperation_def spec_binary_def sdiv_ov_spec CheckResult_spec checked_def
        folds_or_fails_def)
next
  case BO_Power
  show ?thesis
  proof (cases "sint b < 0")
    case True
    with BO_Power show ?thesis
      by (simp add: BinaryOperation_def spec_binary_def isNegative_def folds_or_fails_def)
  next
    case False
    with BO_Power show ?thesis
      by (simp add: BinaryOperation_def spec_binary_def isNegative_def unat_nonnegative
          Power_loop_one CheckResult_spec checked_def folds_or_fails_def)
  qed
next
  case BO_Concat
  then show ?thesis by (simp add: BinaryOperation_def spec_binary_def folds_or_fails_def)
next
  case BO_Relational
  then show ?thesis by (simp add: BinaryOperation_def spec_binary_def folds_or_fails_def)
qed

text \<open>
  Where the evaluator is the checked arithmetic. A binary expression of integer type
  folds only when both operands fold, the right one first; then, unless it is a division
  by zero, \<open>+\<close>, \<open>-\<close>, \<open>*\<close> and \<open>/\<close> yield the mathematical result (the
  quotient truncated towards zero) when it is a 64-bit signed integer and return false
  when it is not, \<open>**\<close> returns false for a negative exponent and otherwise yields the
  power when that is representable and returns false when it is not: the repeated
  multiplication with its check after every step fails exactly when the power overflows.
  Any other operator returns false.
\<close>

lemma VisitBinaryExpr_checked:
  assumes "isIntegerType T" and "Eval RHS = Success R" and "Eval LHS = Success Result"
    and "Op = BO_Divide \<longrightarrow> R \<noteq> 0"
  shows "Eval (BinaryExpr L T Op LHS RHS) =
           folds_or_fails (spec_binary Op (sint Result) (sint R))"
  using assms by (simp add: BinaryOperation_spec)

lemma VisitBinaryExpr_operand_fails:
  assumes "Eval RHS = Failure \<or> Eval RHS = Success R \<and> Eval LHS = Failure"
  shows "Eval (BinaryExpr L T Op LHS RHS) = Failure"
  using assms by auto

lemma VisitBinaryExpr_examples:
  "Eval (BinaryExpr 0 (BuiltinType Integer) BO_Power
           (IntegerConstantExpr 0 (BuiltinType Integer) 2)
           (IntegerConstantExpr 0 (BuiltinType Integer) 10)) = Success 1024"
  "Eval (BinaryExpr 0 (BuiltinType Integer) BO_Power
           (IntegerConstantExpr 0 (BuiltinType Integer) 2)
           (IntegerConstantExpr 0 (BuiltinType Integer) 63)) = Failure"
  "Eval (BinaryExpr 0 (BuiltinType Integer) BO_Plus
           (IntegerConstantExpr 0 (BuiltinType Integer) 9223372036854775807)
           (IntegerConstantExpr 0 (BuiltinType Integer) 1)) = Failure"
  "Eval (BinaryExpr 0 (BuiltinType Integer) BO_Divide
           (IntegerConstantExpr 0 (BuiltinType Integer) 7)
           (IntegerConstantExpr 0 (BuiltinType Integer) 2)) = Success 3"
  "Eval (BinaryExpr 0 (BuiltinType Integer) BO_Multiply
           (IntegerConstantExpr 0 (BuiltinType Integer) 3)
           (OtherExpr 0 (BuiltinType Integer))) = Failure"
  by (simp_all add: isIntegerType_def Assign_def getLimitedValue_def BinaryOperation_spec
      spec_binary_def checked_def in_int64_def tquot_def folds_or_fails_def)

text \<open>
  C7. The division is not checked for a zero divisor. Checked arithmetic has no value for
  \<open>7 / 0\<close>, so the evaluator is to return false; it calls \<^verbatim>\<open>sdiv_ov\<close>, whose
  division stops the process, and \<^verbatim>\<open>EvaluateAsInt\<close> does not return.
\<close>

theorem IntExprEvaluator_division_by_zero:
  "spec_binary BO_Divide 7 0 = None
   \<and> folds_or_fails (spec_binary BO_Divide 7 0) = Failure
   \<and> Eval (BinaryExpr 0 (BuiltinType Integer) BO_Divide
             (IntegerConstantExpr 0 (BuiltinType Integer) 7)
             (IntegerConstantExpr 0 (BuiltinType Integer) 0)) = Aborted
   \<and> EvaluateAsInt (BinaryExpr 0 (BuiltinType Integer) BO_Divide
             (IntegerConstantExpr 0 (BuiltinType Integer) 7)
             (IntegerConstantExpr 0 (BuiltinType Integer) 0)) = None"
  by (simp add: spec_binary_def folds_or_fails_def EvaluateAsInt_def isIntegerType_def
      Assign_def getLimitedValue_def BinaryOperation_def)

subsection \<open>Implicit typing rules\<close>

lemma Apply_range_keeps:
  "R c = Some v \<Longrightarrow> snd (Apply_range Low High T R) c = Some v"
proof (induction Low High T R rule: Apply_range.induct)
  case (1 Low High T R)
  show ?case
  proof (cases "sint Low \<le> sint High \<and> R Low = None")
    case True
    with "1.prems" have "c \<noteq> Low" by auto
    have "snd (Apply_range (Low + 1) High T (R(Low \<mapsto> T))) c = Some v"
    proof (rule "1.IH")
      show "sint Low \<le> sint High" using True by simp
      show "\<not> R Low \<noteq> None" using True by simp
      show "(R(Low \<mapsto> T)) c = Some v" using \<open>c \<noteq> Low\<close> "1.prems" by simp
    qed
    with True show ?thesis by (subst Apply_range.simps) simp
  next
    case False
    with "1.prems" show ?thesis by (subst Apply_range.simps) auto
  qed
qed

lemma Apply_range_fails_after_first:
  assumes "fst (Apply_range Low High T R) = False" and "R Low = None"
  shows "snd (Apply_range Low High T R) Low = Some T"
proof -
  have le: "sint Low \<le> sint High"
    using assms(1) by (subst (asm) Apply_range.simps) (simp split: if_splits)
  have "snd (Apply_range (Low + 1) High T (R(Low \<mapsto> T))) Low = Some T"
    by (rule Apply_range_keeps) simp
  with le assms(2) show ?thesis by (subst Apply_range.simps) simp
qed

lemma Apply_range_first_has_rule:
  "sint Low \<le> sint High \<Longrightarrow> R Low \<noteq> None \<Longrightarrow> Apply_range Low High T R = (False, R)"
  by (subst Apply_range.simps) simp

lemma sint_next:
  fixes a b :: "8 word"
  assumes "sint a < sint b"
  shows "sint (a + 1) = sint a + 1"
proof -
  have "sint b < 2 ^ 7" using sint_lt [of b] by simp
  moreover have "- (2 ^ 7) \<le> sint a" using sint_ge [of a] by simp
  ultimately have "signed_take_bit 7 (sint a + 1) = sint a + 1"
    using assms by (intro signed_take_bit_int_eq_self) simp_all
  then show ?thesis by (simp add: sint_word_ariths)
qed

lemma Apply_range_first_mapped:
  "sint Low \<le> sint k \<Longrightarrow> sint k \<le> sint High \<Longrightarrow> R k \<noteq> None \<Longrightarrow>
   (\<forall>c. sint Low \<le> sint c \<and> sint c < sint k \<longrightarrow> R c = None) \<Longrightarrow>
   Apply_range Low High T R =
     (False, \<lambda>c. if sint Low \<le> sint c \<and> sint c < sint k then Some T else R c)"
proof (induction Low High T R rule: Apply_range.induct)
  case (1 Low High T R)
  show ?case
  proof (cases "Low = k")
    case True
    with 1 show ?thesis by (subst Apply_range.simps) auto
  next
    case False
    then have "sint Low \<noteq> sint k" by (auto dest: signed_word_eqI)
    with "1.prems" have lt: "sint Low < sint k" by simp
    with "1.prems" have un: "R Low = None" by simp
    have nx: "sint (Low + 1) = sint Low + 1"
      by (rule sint_next [OF lt])
    have le: "sint Low \<le> sint High" using lt "1.prems" by simp
    have "Apply_range (Low + 1) High T (R(Low \<mapsto> T)) =
        (False, \<lambda>c. if sint (Low + 1) \<le> sint c \<and> sint c < sint k then Some T
                      else (R(Low \<mapsto> T)) c)"
    proof (rule "1.IH")
      show "sint Low \<le> sint High" by (rule le)
      show "\<not> R Low \<noteq> None" using un by simp
      show "sint (Low + 1) \<le> sint k" using lt nx by simp
      show "sint k \<le> sint High" using "1.prems" by simp
      show "(R(Low \<mapsto> T)) k \<noteq> None" using "1.prems" by simp
      show "\<forall>c. sint (Low + 1) \<le> sint c \<and> sint c < sint k \<longrightarrow> (R(Low \<mapsto> T)) c = None"
        using "1.prems" nx by auto
    qed
    moreover have "(\<lambda>c. if sint (Low + 1) \<le> sint c \<and> sint c < sint k then Some T
                      else (R(Low \<mapsto> T)) c) =
        (\<lambda>c. if sint Low \<le> sint c \<and> sint c < sint k then Some T else R c)"
    proof (rule ext)
      fix c
      have "c \<noteq> Low \<Longrightarrow> sint c \<noteq> sint Low" by (auto dest: signed_word_eqI)
      then show "(if sint (Low + 1) \<le> sint c \<and> sint c < sint k then Some T
                  else (R(Low \<mapsto> T)) c) =
                 (if sint Low \<le> sint c \<and> sint c < sint k then Some T else R c)"
        using lt nx by (cases "c = Low") auto
    qed
    ultimately show ?thesis
      using le un by (subst Apply_range.simps) simp
  qed
qed

text \<open>
  C10. Applying a letter specification is not atomic on failure. For a range
  \<open>Low..High\<close> whose first letter with a rule is \<open>k\<close>, \<open>Apply\<close> returns false and
  the scope keeps the rules inserted for the letters from \<open>Low\<close> up to \<open>k\<close>, which had
  none before. Whenever \<open>Apply\<close> returns false, the scope is the one before exactly
  when the \<open>none\<close> flag is set or the first letter of the specification has a rule
  already: that is every failure of a single letter, and of a range the failure at its
  first letter.
\<close>

theorem ImplicitTypingScope_Apply_not_atomic:
  "(\<not> None_flag Sc \<and> snd Spec = Some second
        \<and> Low = toupper_char (getNameStart0_char (fst Spec))
        \<and> High = toupper_char (getNameStart0_char second)
        \<and> sint Low \<le> sint k \<and> sint k \<le> sint High \<and> Rules Sc k \<noteq> None
        \<and> (\<forall>c. sint Low \<le> sint c \<and> sint c < sint k \<longrightarrow> Rules Sc c = None) \<longrightarrow>
      ImplicitTypingScope_Apply Spec T Sc =
        (False,
         setRules (\<lambda>c. if sint Low \<le> sint c \<and> sint c < sint k then Some T else Rules Sc c) Sc))
   \<and> (fst (ImplicitTypingScope_Apply Spec T Sc) = False \<longrightarrow>
        (snd (ImplicitTypingScope_Apply Spec T Sc) = Sc \<longleftrightarrow>
           None_flag Sc \<or> Rules Sc (toupper_char (getNameStart0_char (fst Spec))) \<noteq> None))"
proof (intro conjI impI)
  assume a: "\<not> None_flag Sc \<and> snd Spec = Some second
    \<and> Low = toupper_char (getNameStart0_char (fst Spec))
    \<and> High = toupper_char (getNameStart0_char second)
    \<and> sint Low \<le> sint k \<and> sint k \<le> sint High \<and> Rules Sc k \<noteq> None
    \<and> (\<forall>c. sint Low \<le> sint c \<and> sint c < sint k \<longrightarrow> Rules Sc c = None)"
  then have "Apply_range Low High T (Rules Sc) =
      (False, \<lambda>c. if sint Low \<le> sint c \<and> sint c < sint k then Some T else Rules Sc c)"
    by (intro Apply_range_first_mapped) auto
  with a show "ImplicitTypingScope_Apply Spec T Sc =
      (False,
       setRules (\<lambda>c. if sint Low \<le> sint c \<and> sint c < sint k then Some T else Rules Sc c) Sc)"
    by (simp add: ImplicitTypingScope_Apply_def)
next
  let ?Low = "toupper_char (getNameStart0_char (fst Spec))"
  assume f: "fst (ImplicitTypingScope_Apply Spec T Sc) = False"
  show "snd (ImplicitTypingScope_Apply Spec T Sc) = Sc \<longleftrightarrow> None_flag Sc \<or> Rules Sc ?Low \<noteq> None"
  proof (cases "None_flag Sc")
    case True
    then show ?thesis by (simp add: ImplicitTypingScope_Apply_def)
  next
    case flag: False
    show ?thesis
    proof (cases "snd Spec")
      case None
      with f flag show ?thesis
        by (auto simp: ImplicitTypingScope_Apply_def Let_def split: if_splits)
    next
      case (Some second)
      let ?High = "toupper_char (getNameStart0_char second)"
      have ap: "ImplicitTypingScope_Apply Spec T Sc =
          (fst (Apply_range ?Low ?High T (Rules Sc)),
           setRules (snd (Apply_range ?Low ?High T (Rules Sc))) Sc)"
        using flag Some by (simp add: ImplicitTypingScope_Apply_def Let_def split: prod.split)
      from f ap have fr: "fst (Apply_range ?Low ?High T (Rules Sc)) = False" by simp
      show ?thesis
      proof (cases "Rules Sc ?Low")
        case None
        from Apply_range_fails_after_first [OF fr None]
        have "Rules (snd (ImplicitTypingScope_Apply Spec T Sc)) ?Low = Some T"
          by (simp add: ap setRules_def)
        with None flag show ?thesis by auto
      next
        case (Some v)
        have le: "sint ?Low \<le> sint ?High"
          using fr by (subst (asm) Apply_range.simps) (simp split: if_splits)
        have "Apply_range ?Low ?High T (Rules Sc) = (False, Rules Sc)"
          using le Some by (intro Apply_range_first_has_rule) simp_all
        with Some show ?thesis by (simp add: ap setRules_def)
      qed
    qed
  qed
qed

theorem ImplicitTypingScope_Apply_not_atomic_witness:
  "fst (ImplicitTypingScope_Apply (''a'', Some ''d'') (Some (BuiltinType Integer))
         (ImplicitTypingScope None [67 \<mapsto> Some (BuiltinType Real)] False)) = False
   \<and> Rules (snd (ImplicitTypingScope_Apply (''a'', Some ''d'') (Some (BuiltinType Integer))
         (ImplicitTypingScope None [67 \<mapsto> Some (BuiltinType Real)] False))) 65
       = Some (Some (BuiltinType Integer))
   \<and> Rules (snd (ImplicitTypingScope_Apply (''a'', Some ''d'') (Some (BuiltinType Integer))
         (ImplicitTypingScope None [67 \<mapsto> Some (BuiltinType Real)] False))) 66
       = Some (Some (BuiltinType Integer))
   \<and> Rules (snd (ImplicitTypingScope_Apply (''a'', Some ''d'') (Some (BuiltinType Integer))
         (ImplicitTypingScope None [67 \<mapsto> Some (BuiltinType Real)] False))) 67
       = Some (Some (BuiltinType Real))
   \<and> Rules (snd (ImplicitTypingScope_Apply (''a'', Some ''d'') (Some (BuiltinType Integer))
         (ImplicitTypingScope None [67 \<mapsto> Some (BuiltinType Real)] False))) 68 = None"
proof -
  have free: "\<forall>c :: 8 word. sint (65 :: 8 word) \<le> sint c \<and> sint c < sint (67 :: 8 word) \<longrightarrow>
      [67 \<mapsto> Some (BuiltinType Real)] c = None"
    by auto
  have names: "toupper_char (getNameStart0_char ''a'') = 65"
    "toupper_char (getNameStart0_char ''d'') = 68"
    by (simp_all add: toupper_char_def getNameStart0_char_def)
  from ImplicitTypingScope_Apply_not_atomic
    [of "ImplicitTypingScope None [67 \<mapsto> Some (BuiltinType Real)] False"
      "(''a'', Some ''d'')" "''d''" 65 68 67 "Some (BuiltinType Integer)"] free names
  show ?thesis
    by (simp add: setRules_def)
qed

text \<open>
  A failing range that leaves the scope as it was: \<^verbatim>\<open>A-C\<close> when \<open>A\<close> has a rule.
\<close>

theorem ImplicitTypingScope_Apply_range_unchanged:
  "ImplicitTypingScope_Apply (''a'', Some ''c'') (Some (BuiltinType Integer))
     (ImplicitTypingScope None [65 \<mapsto> Some (BuiltinType Real)] False) =
     (False, ImplicitTypingScope None [65 \<mapsto> Some (BuiltinType Real)] False)"
  by (simp add: toupper_char_def getNameStart0_char_def setRules_def
      ImplicitTypingScope_Apply_def Apply_range.simps)

subsection \<open>The driver\<close>

lemma ParseFile_opened:
  "InputOpens R \<Longrightarrow> fst (ParseFile Opts R) = hadErrors R (getClient Opts)"
  "InputOpens R \<Longrightarrow>
     CodeGen \<in> set (snd (ParseFile Opts R)) \<longleftrightarrow>
       \<not> SyntaxOnly Opts \<and> \<not> hadErrors R (getClient Opts)"
  by (simp_all add: ParseFile_def Let_def)

lemma ParseFile_unopened:
  "\<not> InputOpens R \<Longrightarrow> ParseFile Opts R = (True, [])"
  by (simp add: ParseFile_def)

lemma driver_main_parts:
  "fst (driver_main Opts R) = (if fst (ParseFile Opts R) then 1 else 0)"
  "CodeGen \<in> set (snd (driver_main Opts R)) \<longleftrightarrow> CodeGen \<in> set (snd (ParseFile Opts R))"
  by (simp_all add: driver_main_def Let_def split: prod.split)

text \<open>
  The earlier revision of the driver generates code for a unit with errors, and fails
  a run that only had warnings.
\<close>

lemma driver_main_earlier_with_errors:
  "driver_main_earlier plain_options (printed_run [SevError])
     = (1, [DumpTheAST, CodeGen, EmitToOutputFile])"
  by (simp add: driver_main_earlier_def ParseFile_earlier_def plain_options_def
      printed_run_def)

lemma driver_main_earlier_with_warnings:
  "driver_main_earlier plain_options (printed_run [SevWarning])
     = (1, [DumpTheAST, CodeGen, EmitToOutputFile])"
  by (simp add: driver_main_earlier_def ParseFile_earlier_def plain_options_def
      printed_run_def)

text \<open>
  C9, as the driver has it. In every run the code generator is invoked exactly when the
  input opens, the run is not \<^verbatim>\<open>-fsyntax-only\<close> and the engine answers that it had
  no errors, and the exit status is 0 exactly when the input opens and the engine had no
  errors. In a run without \<^verbatim>\<open>-verify\<close> whose engine had errors exactly when a
  diagnostic of error severity was reported, whose input opens and which is not
  \<^verbatim>\<open>-fsyntax-only\<close>, the code generator is invoked if and only if no diagnostic of
  error severity was reported, and the exit status is 0 if and only if none was.
\<close>

theorem driver_main_codegen_iff_hadErrors:
  "(CodeGen \<in> set (snd (driver_main Opts R)) \<longleftrightarrow>
      InputOpens R \<and> \<not> SyntaxOnly Opts \<and> \<not> hadErrors R (getClient Opts))
   \<and> (fst (driver_main Opts R) = 0 \<longleftrightarrow> InputOpens R \<and> \<not> hadErrors R (getClient Opts))
   \<and> (\<not> RunVerifier Opts
        \<and> (hadErrors R TextDiagnosticPrinter \<longleftrightarrow> SevError \<in> set (Reported R))
        \<and> InputOpens R \<and> \<not> SyntaxOnly Opts \<longrightarrow>
        (CodeGen \<in> set (snd (driver_main Opts R)) \<longleftrightarrow> SevError \<notin> set (Reported R))
        \<and> (fst (driver_main Opts R) = 0 \<longleftrightarrow> SevError \<notin> set (Reported R)))"
proof -
  have gen: "CodeGen \<in> set (snd (driver_main Opts R)) \<longleftrightarrow>
      InputOpens R \<and> \<not> SyntaxOnly Opts \<and> \<not> hadErrors R (getClient Opts)"
    by (cases "InputOpens R")
      (simp_all add: driver_main_parts ParseFile_opened ParseFile_unopened)
  have status: "fst (driver_main Opts R) = 0 \<longleftrightarrow>
      InputOpens R \<and> \<not> hadErrors R (getClient Opts)"
    by (cases "InputOpens R")
      (simp_all add: driver_main_parts ParseFile_opened ParseFile_unopened)
  have "\<not> RunVerifier Opts \<Longrightarrow> getClient Opts = TextDiagnosticPrinter"
    by (simp add: getClient_def)
  with gen status show ?thesis by simp
qed

theorem driver_main_codegen_iff_hadErrors_witness:
  "driver_main plain_options (printed_run [SevWarning, SevNote])
     = (0, [CodeGen, EmitToOutputFile, LinkTheFiles])
   \<and> driver_main plain_options (printed_run [SevWarning, SevError]) = (1, [])"
  using driver_main_codegen_iff_hadErrors [of plain_options "printed_run [SevWarning, SevNote]"]
    driver_main_codegen_iff_hadErrors [of plain_options "printed_run [SevWarning, SevError]"]
  by (simp add: driver_main_def ParseFile_def getClient_def plain_options_def printed_run_def)

text \<open>
  A run that is not \<^verbatim>\<open>-fsyntax-only\<close> and reports no diagnostic, yet does not
  generate code: its input cannot be opened. The message goes to the error stream, not
  to the engine; the exit status is 1.
\<close>

theorem driver_main_unopened_input:
  "\<not> SyntaxOnly plain_options
   \<and> Reported ((printed_run []) \<lparr>InputOpens := False\<rparr>) = []
   \<and> driver_main plain_options ((printed_run []) \<lparr>InputOpens := False\<rparr>) = (1, [])"
  by (simp add: driver_main_def ParseFile_def plain_options_def printed_run_def)

text \<open>
  Under \<^verbatim>\<open>-verify\<close> the exit status and the code generator follow the answer of the
  verifying client: a run in which two errors were reported and the engine answers that
  it had none generates code and exits with 0.
\<close>

lemma driver_main_verify:
  "driver_main (plain_options \<lparr>RunVerifier := True\<rparr>)
     \<lparr> InputOpens = True, Reported = [SevError, SevError],
       hadErrors = (\<lambda>Client. Client = TextDiagnosticPrinter),
       hadWarnings = (\<lambda>Client. False) \<rparr>
     = (0, [CodeGen, EmitToOutputFile, LinkTheFiles])"
  by (simp add: driver_main_def ParseFile_def getClient_def plain_options_def)

subsection \<open>Forward references at the end of a program unit\<close>

lemma Stmts_InvokeResolveCallback_length [simp]:
  "length (Stmts (InvokeResolveCallback F d X)) = length (Stmts X)"
  by (simp add: InvokeResolveCallback_def setAddress_def setAllowedValue_def
      setDestination_def setTerminatingStmt_def split: ResolveCallbackTy.split)

lemma AllowedValues_InvokeResolveCallback_length [simp]:
  "length (getAllowedValues (Stmts (InvokeResolveCallback F d X) ! j)) =
     length (getAllowedValues (Stmts X ! j))"
  by (cases "Statement F < length (Stmts X)"; cases "j = Statement F")
     (simp_all add: InvokeResolveCallback_def setAddress_def setAllowedValue_def
        setDestination_def setTerminatingStmt_def list_update_beyond
        split: ResolveCallbackTy.split)

lemma SlotExists_InvokeResolveCallback [simp]:
  "SlotExists (Stmts (InvokeResolveCallback F d X)) G = SlotExists (Stmts X) G"
  by (simp add: SlotExists_def)

lemma SlotExists_FixForwardDecls [simp]:
  "SlotExists (Stmts (FixForwardDecls Fs S)) G = SlotExists (Stmts S) G"
  by (induction Fs arbitrary: S) (simp_all split: option.split)

lemma Referenced_other_slot:
  assumes "ReferenceSlot G \<noteq> ReferenceSlot F"
  shows "Referenced (Stmts (InvokeResolveCallback F d X)) G = Referenced (Stmts X) G"
proof (cases "Statement F < length (Stmts X)")
  case False
  then show ?thesis
    by (simp add: InvokeResolveCallback_def setAddress_def setAllowedValue_def
        setDestination_def setTerminatingStmt_def list_update_beyond
        split: ResolveCallbackTy.split)
next
  case True
  show ?thesis
  proof (cases "Statement G = Statement F")
    case False
    then show ?thesis
      by (simp add: Referenced_def InvokeResolveCallback_def setAddress_def
          setAllowedValue_def setDestination_def setTerminatingStmt_def
          split: ResolveCallbackTy.split)
  next
    case same: True
    with assms True show ?thesis
      by (cases "ResolveCallback F"; cases "ResolveCallback G")
         (auto simp: Referenced_def ReferenceSlot_def InvokeResolveCallback_def setAddress_def
            setAllowedValue_def setDestination_def setTerminatingStmt_def)
  qed
qed

lemma Referenced_own_slot:
  assumes "SlotExists (Stmts X) F"
  shows "Referenced (Stmts (InvokeResolveCallback F d X)) F = Some d"
  using assms
  by (cases "ResolveCallback F")
     (simp_all add: SlotExists_def Referenced_def InvokeResolveCallback_def setAddress_def
        setAllowedValue_def setDestination_def setTerminatingStmt_def)

lemma FixForwardDecls_other_slots:
  "ReferenceSlot G \<notin> ReferenceSlot ` set Fs \<Longrightarrow>
   Referenced (Stmts (FixForwardDecls Fs S)) G = Referenced (Stmts S) G"
proof (induction Fs rule: rev_induct)
  case Nil
  show ?case by simp
next
  case (snoc F Fs)
  then have "ReferenceSlot G \<noteq> ReferenceSlot F" "ReferenceSlot G \<notin> ReferenceSlot ` set Fs"
    by auto
  with snoc.IH show ?case
    by (simp add: FixForwardDecls_snoc Referenced_other_slot split: option.split)
qed

lemma FixForwardDecls_Referenced:
  assumes "distinct (map ReferenceSlot Fs)" and "\<forall>F \<in> set Fs. SlotExists (Stmts S) F"
    and "F \<in> set Fs"
  shows "Referenced (Stmts (FixForwardDecls Fs S)) F =
           (case StmtLabelScope_Resolve S (StmtLabel F) of
              Some Decl \<Rightarrow> Some Decl
            | None \<Rightarrow> Referenced (Stmts S) F)"
  using assms
proof (induction Fs rule: rev_induct)
  case Nil
  then show ?case by simp
next
  case (snoc F' Fs)
  from snoc.prems(1) have d: "distinct (map ReferenceSlot Fs)"
    and new: "ReferenceSlot F' \<notin> ReferenceSlot ` set Fs"
    by simp_all
  show ?case
  proof (cases "F \<in> set Fs")
    case True
    with new have "ReferenceSlot F \<noteq> ReferenceSlot F'" by (metis imageI)
    moreover have "Referenced (Stmts (FixForwardDecls Fs S)) F =
        (case StmtLabelScope_Resolve S (StmtLabel F) of
           Some Decl \<Rightarrow> Some Decl
         | None \<Rightarrow> Referenced (Stmts S) F)"
      using snoc.IH [OF d _ True] snoc.prems(2) by simp
    ultimately show ?thesis
      by (simp add: FixForwardDecls_snoc Referenced_other_slot split: option.split)
  next
    case False
    with snoc.prems(3) have eq: "F = F'" by simp
    have ex: "SlotExists (Stmts (FixForwardDecls Fs S)) F'"
      using snoc.prems(2) by simp
    show ?thesis
      unfolding eq
      by (simp add: FixForwardDecls_snoc Referenced_own_slot [OF ex]
          FixForwardDecls_other_slots [OF new] split: option.split)
  qed
qed

text \<open>
  C5. At the end of a program unit whose forward references are as the actions record
  them, the list of forward references is empty afterwards, and every reference that was
  in the list is settled: when a statement is declared under its label, the link of the
  referring statement holds that statement in the arena the unit leaves; when none is,
  the report \<open>undeclared statement label\<close> for its label is among the diagnostics and
  the link is as it was. The diagnostics of the unit's end are the ones before, then one
  report for every reference with an undeclared label, in the order the references were
  recorded, then the reports for the IF statements left open and for the terminating
  statements of the DO statements.
\<close>

theorem PopExecutableProgramUnit_forward_references:
  assumes "WellRecorded S"
  shows "ForwardStmtLabelDeclsInScope (PopExecutableProgramUnit Loc S) = []
   \<and> (\<forall>F \<in> set (ForwardStmtLabelDeclsInScope S).
         case StmtLabelScope_Resolve S (StmtLabel F) of
           Some Decl \<Rightarrow> Referenced (Stmts (PopExecutableProgramUnit Loc S)) F = Some Decl
         | None \<Rightarrow>
             err_undeclared_stmt_label_use (getLocation (StmtLabel F)) (StmtLabel F)
               \<in> set (Diags (PopExecutableProgramUnit Loc S))
             \<and> Referenced (Stmts (PopExecutableProgramUnit Loc S)) F = Referenced (Stmts S) F)
   \<and> Diags (PopExecutableProgramUnit Loc S) =
       Diags S @
       map (\<lambda>F. err_undeclared_stmt_label_use (getLocation (StmtLabel F)) (StmtLabel F))
         (filter (\<lambda>F. StmtLabelScope_Resolve S (StmtLabel F) = None)
            (ForwardStmtLabelDeclsInScope S)) @
       replicate (length (IfStmtStack S)) (err_expected_kw Loc ''END IF'') @
       concat (map (DoTerminatorReports (Stmts (PopExecutableProgramUnit Loc S)))
                 (DoStmtList S))"
proof (intro conjI ballI)
  show "ForwardStmtLabelDeclsInScope (PopExecutableProgramUnit Loc S) = []"
    by (simp add: PopExecutableProgramUnit_cleared)
  show diags: "Diags (PopExecutableProgramUnit Loc S) =
       Diags S @
       map (\<lambda>F. err_undeclared_stmt_label_use (getLocation (StmtLabel F)) (StmtLabel F))
         (filter (\<lambda>F. StmtLabelScope_Resolve S (StmtLabel F) = None)
            (ForwardStmtLabelDeclsInScope S)) @
       replicate (length (IfStmtStack S)) (err_expected_kw Loc ''END IF'') @
       concat (map (DoTerminatorReports (Stmts (PopExecutableProgramUnit Loc S)))
                 (DoStmtList S))"
    by (simp add: PopExecutableProgramUnit_Diags PopExecutableProgramUnit_cleared)
  fix F assume F: "F \<in> set (ForwardStmtLabelDeclsInScope S)"
  from assms have d: "distinct (map ReferenceSlot (ForwardStmtLabelDeclsInScope S))"
    and ex: "\<forall>F \<in> set (ForwardStmtLabelDeclsInScope S). SlotExists (Stmts S) F"
    by (simp_all add: WellRecorded_def)
  note ref = FixForwardDecls_Referenced [OF d ex F]
  show "case StmtLabelScope_Resolve S (StmtLabel F) of
           Some Decl \<Rightarrow> Referenced (Stmts (PopExecutableProgramUnit Loc S)) F = Some Decl
         | None \<Rightarrow>
             err_undeclared_stmt_label_use (getLocation (StmtLabel F)) (StmtLabel F)
               \<in> set (Diags (PopExecutableProgramUnit Loc S))
             \<and> Referenced (Stmts (PopExecutableProgramUnit Loc S)) F = Referenced (Stmts S) F"
  proof (cases "StmtLabelScope_Resolve S (StmtLabel F)")
    case None
    then have "err_undeclared_stmt_label_use (getLocation (StmtLabel F)) (StmtLabel F)
        \<in> set (Diags (PopExecutableProgramUnit Loc S))"
      using F unfolding diags by auto
    with None ref show ?thesis
      by (simp add: PopExecutableProgramUnit_cleared)
  next
    case (Some Decl)
    with ref show ?thesis
      by (simp add: PopExecutableProgramUnit_cleared)
  qed
qed

text \<open>
  The actions record the forward references in that way: the state a unit starts in has
  none, and every action keeps the property.
\<close>

lemma WellRecorded_init: "WellRecorded Sema_init"
  by (simp add: WellRecorded_def Sema_init_def)

lemma WellRecorded_DeclareIfLabelled [simp]:
  "WellRecorded (DeclareIfLabelled Label R S) = WellRecorded S"
  by (simp add: WellRecorded_def DeclareIfLabelled_def DeclareStatementLabel_def
      StmtLabelScope_Declare_def Report_def Let_def split: option.split)

lemma WellRecorded_Report [simp]: "WellRecorded (Report D S) = WellRecorded S"
  by (simp add: WellRecorded_def Report_def)

lemma SlotExists_append: "SlotExists A F \<Longrightarrow> SlotExists (A @ [s]) F"
  by (simp add: SlotExists_def nth_append)

lemma WellRecorded_Create:
  "WellRecorded S \<Longrightarrow> WellRecorded (snd (Create s S))"
  by (simp add: WellRecorded_def Create_def SlotExists_append)

lemma WellRecorded_stacks [simp]:
  "WellRecorded (S\<lparr>IfStmtStack := st\<rparr>) = WellRecorded S"
  "WellRecorded (S\<lparr>DoStmtList := dl\<rparr>) = WellRecorded S"
  by (simp_all add: WellRecorded_def)

lemma SlotExists_links:
  "SlotExists (A[i := (A ! i)\<lparr>getElseStmt := e\<rparr>]) F = SlotExists A F"
  "SlotExists (A[i := (A ! i)\<lparr>getThenStmt := e\<rparr>]) F = SlotExists A F"
  by (cases "i < length A"; cases "Statement F = i";
      simp add: SlotExists_def list_update_beyond)+

lemma WellRecorded_links [simp]:
  "WellRecorded (setElseStmt i e S) = WellRecorded S"
  "WellRecorded (setThenStmt i e S) = WellRecorded S"
  by (simp_all add: WellRecorded_def setElseStmt_def setThenStmt_def SlotExists_links)

lemma WellRecorded_new_reference:
  assumes "WellRecorded S" and "Callback \<noteq> ResolveAssignedGotoStmtLabel"
  shows "WellRecorded
           (DeclareForwardReference (ForwardDecl Label (length (Stmts S)) Callback Data)
              (snd (Create s S)))"
proof -
  have old: "\<forall>F \<in> set (ForwardStmtLabelDeclsInScope S). Statement F \<noteq> length (Stmts S)"
    using assms(1) by (auto simp: WellRecorded_def SlotExists_def)
  have "ReferenceSlot (ForwardDecl Label (length (Stmts S)) Callback Data)
          \<notin> ReferenceSlot ` set (ForwardStmtLabelDeclsInScope S)"
  proof
    assume "ReferenceSlot (ForwardDecl Label (length (Stmts S)) Callback Data)
          \<in> ReferenceSlot ` set (ForwardStmtLabelDeclsInScope S)"
    then obtain F where "F \<in> set (ForwardStmtLabelDeclsInScope S)"
      and "ReferenceSlot (ForwardDecl Label (length (Stmts S)) Callback Data) = ReferenceSlot F"
      by auto
    then have "Statement F = length (Stmts S)" "F \<in> set (ForwardStmtLabelDeclsInScope S)"
      by (simp_all add: ReferenceSlot_def ForwardDecl_def)
    with old show False by simp
  qed
  moreover have "SlotExists (Stmts S @ [s]) (ForwardDecl Label (length (Stmts S)) Callback Data)"
    using assms(2) by (simp add: SlotExists_def ForwardDecl_def)
  ultimately show ?thesis
    using assms(1)
    by (simp add: WellRecorded_def DeclareForwardReference_def Create_def SlotExists_append)
qed

lemma WellRecorded_DeclareAllowedForward:
  assumes "WellRecorded S" and "Result < length (Stmts S)"
    and "I + length Ls \<le> length (getAllowedValues (Stmts S ! Result))"
    and "\<forall>F \<in> set (ForwardStmtLabelDeclsInScope S).
           Statement F = Result \<longrightarrow>
             ResolveCallback F = ResolveAssignedGotoStmtLabel \<and> ResolveCallbackData F < I"
  shows "WellRecorded (DeclareAllowedForward Vs Ls I Result S)"
  using assms
proof (induction Vs Ls I Result S rule: DeclareAllowedForward.induct)
  case (1 V Vs L Ls I Result S)
  let ?F = "ForwardDecl V Result ResolveAssignedGotoStmtLabel I"
  let ?S = "case L of None \<Rightarrow> DeclareForwardReference ?F S | Some d \<Rightarrow> S"
  have fields: "Stmts ?S = Stmts S"
    "set (ForwardStmtLabelDeclsInScope ?S) \<subseteq> insert ?F (set (ForwardStmtLabelDeclsInScope S))"
    by (auto simp: DeclareForwardReference_def split: option.split)
  have new: "ReferenceSlot ?F \<notin> ReferenceSlot ` set (ForwardStmtLabelDeclsInScope S)"
  proof
    assume "ReferenceSlot ?F \<in> ReferenceSlot ` set (ForwardStmtLabelDeclsInScope S)"
    then obtain G where G: "G \<in> set (ForwardStmtLabelDeclsInScope S)"
      and "ReferenceSlot ?F = ReferenceSlot G"
      by auto
    then have "Statement G = Result" "ResolveCallback G = ResolveAssignedGotoStmtLabel"
      "ResolveCallbackData G = I"
      by (simp_all add: ReferenceSlot_def ForwardDecl_def split: if_splits)
    with "1.prems"(4) G show False by auto
  qed
  have ex: "SlotExists (Stmts S) ?F"
    using "1.prems"(2,3) by (simp add: SlotExists_def ForwardDecl_def)
  have wr: "WellRecorded ?S"
    using "1.prems"(1) new ex
    by (simp add: WellRecorded_def DeclareForwardReference_def split: option.split)
  have "WellRecorded (DeclareAllowedForward Vs Ls (Suc I) Result ?S)"
  proof (rule "1.IH")
    show "WellRecorded ?S" by (rule wr)
    show "Result < length (Stmts ?S)" using "1.prems"(2) fields(1) by simp
    show "Suc I + length Ls \<le> length (getAllowedValues (Stmts ?S ! Result))"
      using "1.prems"(3) fields(1) by simp
    show "\<forall>F\<in>set (ForwardStmtLabelDeclsInScope ?S).
        Statement F = Result \<longrightarrow>
          ResolveCallback F = ResolveAssignedGotoStmtLabel \<and> ResolveCallbackData F < Suc I"
    proof
      fix F assume "F \<in> set (ForwardStmtLabelDeclsInScope ?S)"
      with fields(2) have "F = ?F \<or> F \<in> set (ForwardStmtLabelDeclsInScope S)" by auto
      then show "Statement F = Result \<longrightarrow>
          ResolveCallback F = ResolveAssignedGotoStmtLabel \<and> ResolveCallbackData F < Suc I"
      proof
        assume "F = ?F"
        then have "ResolveCallback F = ResolveAssignedGotoStmtLabel" "ResolveCallbackData F = I"
          by (simp_all add: ForwardDecl_def)
        then show ?thesis by simp
      next
        assume "F \<in> set (ForwardStmtLabelDeclsInScope S)"
        with "1.prems"(4) show ?thesis by (auto simp: less_Suc_eq)
      qed
    qed
  qed
  then show ?case by simp
qed simp_all

lemma WellRecorded_label_actions:
  assumes "WellRecorded S"
  shows "WellRecorded (snd (ActOnGotoStmt Loc Destination Label S))"
    and "WellRecorded (snd (ActOnAssignStmt Loc Value VarRef Label S))"
    and "WellRecorded (snd (ActOnAssignedGotoStmt Loc VarRef AllowedValues Label S))"
proof -
  show "WellRecorded (snd (ActOnGotoStmt Loc Destination Label S))"
    using WellRecorded_new_reference [OF assms, of ResolveGotoStmtLabel]
      WellRecorded_Create [OF assms]
    by (simp add: ActOnGotoStmt_def Let_def Create_def split: option.split)
  show "WellRecorded (snd (ActOnAssignStmt Loc Value VarRef Label S))"
    using WellRecorded_new_reference [OF assms, of ResolveAssignStmtLabel]
      WellRecorded_Create [OF assms]
    by (simp add: ActOnAssignStmt_def Let_def Create_def split: option.split)
  let ?s = "(Stmt_Create Stmt_AssignedGoto Loc Label [VarRef])
              \<lparr>getAllowedValues := map (StmtLabelScope_Resolve S) AllowedValues\<rparr>"
  have old: "\<forall>F \<in> set (ForwardStmtLabelDeclsInScope S). Statement F \<noteq> length (Stmts S)"
    using assms by (auto simp: WellRecorded_def SlotExists_def)
  have "WellRecorded (DeclareAllowedForward AllowedValues
          (map (StmtLabelScope_Resolve S) AllowedValues) 0 (length (Stmts S))
          (snd (Create ?s S)))"
  proof (rule WellRecorded_DeclareAllowedForward)
    show "WellRecorded (snd (Create ?s S))" by (rule WellRecorded_Create [OF assms])
    show "length (Stmts S) < length (Stmts (snd (Create ?s S)))" by (simp add: Create_def)
    show "0 + length (map (StmtLabelScope_Resolve S) AllowedValues)
        \<le> length (getAllowedValues (Stmts (snd (Create ?s S)) ! length (Stmts S)))"
      by (simp add: Create_def)
    show "\<forall>F\<in>set (ForwardStmtLabelDeclsInScope (snd (Create ?s S))).
        Statement F = length (Stmts S) \<longrightarrow>
          ResolveCallback F = ResolveAssignedGotoStmtLabel \<and> ResolveCallbackData F < 0"
      using old by (simp add: Create_def)
  qed
  then show "WellRecorded (snd (ActOnAssignedGotoStmt Loc VarRef AllowedValues Label S))"
    by (simp add: ActOnAssignedGotoStmt_def Let_def Create_def)
qed

lemma fst_Create [simp]: "fst (Create s S) = length (Stmts S)"
  by (simp add: Create_def)

lemma WellRecorded_Expect [simp]:
  "WellRecorded (snd (ExpectRealOrIntegerOrDoublePrec E D X)) = WellRecorded X"
  by (simp add: ExpectRealOrIntegerOrDoublePrec_def Let_def)

lemma WellRecorded_ActOnDoStmt:
  assumes "WellRecorded S"
  shows "WellRecorded (snd (ActOnDoStmt Loc TerminatingStmt DoVar E1 E2 E3 Label S))"
  using assms
  by (cases E3)
     (simp_all add: ActOnDoStmt_def Let_def split_beta WellRecorded_new_reference
        split: option.split)

lemma WellRecorded_other_actions:
  assumes "WellRecorded S"
  shows "WellRecorded (snd (ActOnAssignmentStmt Loc LHS RHS Label S))"
    and "WellRecorded (snd (ActOnIfStmt_logical Loc Condition Body Label S))"
    and "WellRecorded (snd (ActOnIfStmt Loc Condition Label S))"
    and "WellRecorded (snd (ActOnElseIfStmt Loc Condition Label S))"
    and "WellRecorded (snd (ActOnElseStmt Loc Label S))"
    and "WellRecorded (snd (ActOnEndIfStmt Loc Label S))"
    and "WellRecorded (snd (ActOnSimpleStmt ID Loc Ops Label S))"
    and "WellRecorded (snd (ActOnIMPLICIT Loc Ty LetterSpecs Label S))"
    and "WellRecorded (PopExecutableProgramUnit Loc S)"
proof -
  note c = WellRecorded_Create [OF assms, unfolded Create_def, simplified]
  show "WellRecorded (snd (ActOnAssignmentStmt Loc LHS RHS Label S))"
    using assms c
    by (simp add: ActOnAssignmentStmt_def BuildAssignment_def typeError_def Let_def Create_def)
  show "WellRecorded (snd (ActOnIfStmt_logical Loc Condition Body Label S))"
    using assms c
    by (simp add: ActOnIfStmt_logical_def ReportExpectedLogical_def Let_def Create_def)
  show "WellRecorded (snd (ActOnIfStmt Loc Condition Label S))"
    using assms c
    by (simp add: ActOnIfStmt_def ReportExpectedLogical_def Let_def Create_def)
  show "WellRecorded (snd (ActOnElseIfStmt Loc Condition Label S))"
    using assms c
    by (simp add: ActOnElseIfStmt_def ReportExpectedLogical_def Let_def Create_def)
  show "WellRecorded (snd (ActOnElseStmt Loc Label S))"
    using assms c by (simp add: ActOnElseStmt_def Let_def Create_def)
  show "WellRecorded (snd (ActOnEndIfStmt Loc Label S))"
    using assms WellRecorded_Create [of "S\<lparr>IfStmtStack := butlast (IfStmtStack S)\<rparr>"]
    by (simp add: ActOnEndIfStmt_def Let_def Create_def)
  show "WellRecorded (snd (ActOnSimpleStmt ID Loc Ops Label S))"
    using assms c by (simp add: ActOnSimpleStmt_def Let_def Create_def)
  show "WellRecorded (snd (ActOnIMPLICIT Loc Ty LetterSpecs Label S))"
    using assms c by (simp add: ActOnIMPLICIT_def Let_def Create_def)
  show "WellRecorded (PopExecutableProgramUnit Loc S)"
    by (simp add: WellRecorded_def PopExecutableProgramUnit_cleared)
qed

theorem PopExecutableProgramUnit_forward_references_witness:
  "WellRecorded unit_goto
   \<and> ForwardStmtLabelDeclsInScope unit_goto =
     [ForwardDecl (label 1 100) 0 ResolveGotoStmtLabel 0,
      ForwardDecl (label 2 200) 1 ResolveGotoStmtLabel 0]
   \<and> ForwardStmtLabelDeclsInScope (PopExecutableProgramUnit 9 unit_goto) = []
   \<and> getDestination (Stmts (PopExecutableProgramUnit 9 unit_goto) ! 0) = Some 2
   \<and> getDestination (Stmts (PopExecutableProgramUnit 9 unit_goto) ! 1) = None
   \<and> Diags (PopExecutableProgramUnit 9 unit_goto) =
       [err_undeclared_stmt_label_use 2 (label 2 200)]"
proof -
  have wr: "WellRecorded unit_goto"
    by (simp add: unit_goto_def ActOnContinueStmt_def WellRecorded_label_actions
        WellRecorded_other_actions WellRecorded_init)
  from PopExecutableProgramUnit_forward_references [OF wr, of 9] wr
  show ?thesis
    by (simp add: unit_goto_def Sema_defs DoTerminatorReports_def Referenced_def)
qed

subsection \<open>What the emitter writes\<close>

lemma Insert_fields:
  "InsertBlock (Insert i E) = InsertBlock E"
  "Loops (Insert i E) = Loops E"
  "Elements (Insert i E) = Elements E"
  by (simp_all add: Insert_def split: option.split)

lemma Insert_Blocks:
  "InsertBlock E = Some b \<Longrightarrow> Blocks (Insert i E) = (Blocks E)(b := Blocks E b @ [i])"
  by (simp add: Insert_def)

lemma EmitBranch_fields:
  "InsertBlock (EmitBranch FallThroughHelpers t E) = None"
  "Loops (EmitBranch FallThroughHelpers t E) = Loops E"
  "Elements (EmitBranch FallThroughHelpers t E) = Elements E"
  by (simp_all add: FallThroughHelpers_def Insert_fields split: option.split)

lemma EmitBranch_Blocks:
  "InsertBlock E = Some b \<Longrightarrow> \<not> getTerminator (Blocks E b) \<Longrightarrow>
     Blocks (EmitBranch FallThroughHelpers t E) = (Blocks E)(b := Blocks E b @ [Br t])"
  "InsertBlock E = Some b \<Longrightarrow> getTerminator (Blocks E b) \<Longrightarrow>
     Blocks (EmitBranch FallThroughHelpers t E) = Blocks E"
  "InsertBlock E = None \<Longrightarrow> Blocks (EmitBranch FallThroughHelpers t E) = Blocks E"
  by (simp_all add: FallThroughHelpers_def Insert_Blocks)

lemma EmitBlock_fields:
  "InsertBlock (EmitBlock FallThroughHelpers BB E) = Some BB"
  "Loops (EmitBlock FallThroughHelpers BB E) = Loops E"
  "Elements (EmitBlock FallThroughHelpers BB E) = Elements E"
  "Blocks (EmitBlock FallThroughHelpers BB E) = Blocks (EmitBranch FallThroughHelpers BB E)"
  by (simp_all add: FallThroughHelpers_def Insert_fields split: option.split)

lemmas emit_simps = Insert_fields Insert_Blocks EmitBranch_fields EmitBranch_Blocks
  EmitBlock_fields getTerminator_def













subsection \<open>Running the loop nest\<close>













subsection \<open>The whole array assignment\<close>




lemma EndLoop_Elements [simp]:
  "Elements (EndLoop FallThroughHelpers L E) = Elements E"
  by (simp add: EndLoop_def emit_simps split: option.split)

lemma EndLoops_Elements [simp]:
  "Elements (EndLoops FallThroughHelpers Ls E) = Elements E"
  by (induction Ls arbitrary: E) simp_all






text \<open>
  The code for the sections \<open>(0:2, 7, 0:3)\<close>: the loop of the last section is the
  outer one, each counter starts at 0, is compared with its size by an unsigned less-than
  and is incremented by one, and the element section has no blocks.
\<close>

lemma EmitArrayAssignment_example:
  "map (Blocks (EmitArrayAssignment FallThroughHelpers
          [RangeSection \<lparr>Offset = None, Size = 2, Stride = None\<rparr>,
           ElementSection 7,
           RangeSection \<lparr>Offset = None, Size = 3 :: 32 word, Stride = None\<rparr>]
          Emitter_init))
     [Entry, LoopCond 2, LoopBody 2, LoopCond 1, LoopBody 1, LoopEnd 1,
      LoopCond 0, LoopBody 0, LoopEnd 0, LoopEnd 2] =
   [[StoreConst 0 2, Br (LoopCond 2)],
    [CondBrULT 2 3 (LoopBody 2) (LoopEnd 2)],
    [LoadElement 2, StoreConst 0 0, Br (LoopCond 0)],
    [], [], [],
    [CondBrULT 0 2 (LoopBody 0) (LoopEnd 0)],
    [LoadElement 0, ElementOperation, StoreIncrement 0, Br (LoopCond 0)],
    [StoreIncrement 2, Br (LoopCond 2)],
    []]"
  by (simp add: EmitArrayAssignment_def EmitArrayIterationBegin_def EmitArrayIterationEnd_def
      BeginSection_def EndLoop_def Insert_def FallThroughHelpers_def getTerminator_def
      Emitter_init_def LoopInfo_init_def Let_def numeral_3_eq_3)



end
